theory Spec2Isabelle
  imports Complex_Main "HOL-Library.AList" "HOL-Library.Log_Nat"
begin


section \<open>Python values\<close>

text \<open>
  A Python \<open>str\<close> is modelled as a \<open>string\<close> whose characters are the code points
  0..255 (ASCII and Latin-1); Python integers are \<open>int\<close> (unbounded) and the loop
  indices and lengths that cannot be negative are \<open>nat\<close>.  A Python \<open>float\<close> is modelled
  by the rational number it denotes; the arithmetic on floats rounds, as written out in
  the subsection on floating-point numbers.
\<close>

definition digit_char :: "nat \<Rightarrow> char" where
  "digit_char d = char_of (48 + d)"

function str_nat :: "nat \<Rightarrow> string" where
  "str_nat n = (if n < 10 then [digit_char n] else str_nat (n div 10) @ [digit_char (n mod 10)])"
  by pat_completeness auto
termination
  by (relation "measure (\<lambda>n. n)") auto

declare str_nat.simps [simp del]

definition str_int :: "int \<Rightarrow> string" where
  \<comment> \<open>\<open>str(i)\<close>, also what an f-string writes for \<open>{i}\<close>\<close>
  "str_int i = (if i < 0 then CHR ''-'' # str_nat (nat (- i)) else str_nat (nat i))"

definition is_digit :: "char \<Rightarrow> bool" where
  \<comment> \<open>\<open>\d\<close>: the decimal digits\<close>
  "is_digit c = (let n = (of_char c :: nat) in 48 \<le> n \<and> n \<le> 57)"

definition is_space :: "char \<Rightarrow> bool" where
  \<comment> \<open>\<open>\s\<close> on a \<open>str\<close> pattern: tab, newline, VT, FF, CR, FS, GS, RS, US, space, NEL, NBSP\<close>
  "is_space c = (let n = (of_char c :: nat) in
     (9 \<le> n \<and> n \<le> 13) \<or> (28 \<le> n \<and> n \<le> 32) \<or> n = 133 \<or> n = 160)"

definition is_word :: "char \<Rightarrow> bool" where
  \<comment> \<open>\<open>\w\<close> on a \<open>str\<close> pattern: alphanumeric or underscore\<close>
  "is_word c = (let n = (of_char c :: nat) in
     (48 \<le> n \<and> n \<le> 57) \<or> (65 \<le> n \<and> n \<le> 90) \<or> n = 95 \<or> (97 \<le> n \<and> n \<le> 122) \<or>
     n = 170 \<or> n = 178 \<or> n = 179 \<or> n = 181 \<or> n = 185 \<or> n = 186 \<or> (188 \<le> n \<and> n \<le> 190) \<or>
     (192 \<le> n \<and> n \<le> 214) \<or> (216 \<le> n \<and> n \<le> 246) \<or> (248 \<le> n \<and> n \<le> 255))"

definition lower_char :: "char \<Rightarrow> char" where
  "lower_char c = (let n = (of_char c :: nat) in
     if (65 \<le> n \<and> n \<le> 90) \<or> (192 \<le> n \<and> n \<le> 222 \<and> n \<noteq> 215) then char_of (n + 32) else c)"

definition lower :: "string \<Rightarrow> string" where
  \<comment> \<open>\<open>s.lower()\<close>\<close>
  "lower s = map lower_char s"

definition int_of_digits :: "string \<Rightarrow> int" where
  \<comment> \<open>\<open>int(s)\<close> on a string of decimal digits\<close>
  "int_of_digits s = foldl (\<lambda>a c. 10 * a + (int (of_char c) - 48)) 0 s"

fun starts_with :: "string \<Rightarrow> string \<Rightarrow> bool" where
  \<comment> \<open>\<open>s.startswith(p)\<close>, arguments in the order (p, s)\<close>
  "starts_with [] s = True"
| "starts_with (p # ps) [] = False"
| "starts_with (p # ps) (c # cs) = (p = c \<and> starts_with ps cs)"

fun contains :: "string \<Rightarrow> string \<Rightarrow> bool" where
  \<comment> \<open>\<open>sub in s\<close>, arguments in the order (sub, s)\<close>
  "contains sub [] = starts_with sub []"
| "contains sub (c # cs) = (starts_with sub (c # cs) \<or> contains sub cs)"


subsection \<open>Floating-point numbers\<close>

text \<open>
  A Python \<open>float\<close> is an IEEE double.  \<open>to_double x\<close> is the double nearest to the
  rational \<open>x\<close>, ties going to the even mantissa: with \<open>2^e \<le> |x| < 2^(e+1)\<close> the doubles
  near \<open>x\<close> are the multiples of \<open>2^(e-52)\<close>.  Overflow and subnormal numbers are not
  modelled; the quotients and sums below stay far from both.  The true division of two
  integers and the addition of two floats are the exact results rounded once.
\<close>

definition pow2 :: "int \<Rightarrow> rat" where
  "pow2 e = (if 0 \<le> e then 2 ^ nat e else 1 / 2 ^ nat (- e))"

definition round_half_even :: "rat \<Rightarrow> int" where
  "round_half_even x =
     (let f = \<lfloor>x\<rfloor>; d = x - of_int f
      in if d < 1 / 2 then f else if 1 / 2 < d then f + 1 else if even f then f else f + 1)"

definition binade :: "rat \<Rightarrow> int" where
  \<comment> \<open>for \<open>x > 0\<close>, the \<open>e\<close> with \<open>2^e \<le> x < 2^(e+1)\<close>: it is the difference of the bit lengths
      of numerator and denominator, or one less\<close>
  "binade x = (case quotient_of x of (p, q) \<Rightarrow>
     (let d = bitlen p - bitlen q in if pow2 d \<le> x then d else d - 1))"

definition to_double :: "rat \<Rightarrow> rat" where
  "to_double x =
     (if x = 0 then 0
      else (let a = \<bar>x\<bar>; u = pow2 (binade a - 52); m = of_int (round_half_even (a / u)) * u
            in if x < 0 then - m else m))"

definition int_truediv :: "int \<Rightarrow> int \<Rightarrow> rat" where
  \<comment> \<open>\<open>a / b\<close> on two integers, \<open>b\<close> not zero\<close>
  "int_truediv a b = to_double (of_int a / of_int b)"

definition float_add :: "rat \<Rightarrow> rat \<Rightarrow> rat" where
  \<comment> \<open>\<open>x + y\<close> on two floats\<close>
  "float_add x y = to_double (x + y)"

definition float_div_int :: "rat \<Rightarrow> nat \<Rightarrow> rat" where
  \<comment> \<open>\<open>x / n\<close>, a float by a positive integer below \<open>2^53\<close>\<close>
  "float_div_int x n = to_double (x / of_nat n)"

section \<open>Regular expressions as Python's \<open>re\<close> module runs them\<close>

text \<open>
  The patterns of \<open>workflow.py\<close> use literals, the classes \<open>\s\<close>, \<open>\d\<close> and \<open>[:\s]\<close>,
  greedy \<open>*\<close>, \<open>?\<close> and \<open>{1,3}\<close>, alternation, groups and \<open>\b\<close>.  \<open>rx_match\<close> lists
  the ways a pattern can match at the current position in the order in which a
  backtracking matcher tries them (greedy first, left alternative first), so its first
  element is the match \<open>re\<close> reports there.  A state is the character before the current
  position (for \<open>\b\<close>), the text still to read and the groups captured so far.
\<close>

datatype cls = ClsChar char | ClsSpace | ClsDigit

fun in_cls :: "cls \<Rightarrow> char \<Rightarrow> bool" where
  "in_cls (ClsChar x) c = (c = x)"
| "in_cls ClsSpace c = is_space c"
| "in_cls ClsDigit c = is_digit c"

datatype rx =
    Eps
  | Chr char
  | CSet "cls list"
  | Seq rx rx
  | Alt rx rx
  | Opt rx
  | Star rx
  | Grp nat rx
  | WordB

type_synonym mstate = "char option \<times> string \<times> (nat \<times> string) list"

definition rest :: "mstate \<Rightarrow> string" where
  "rest s = fst (snd s)"

definition is_boundary :: "char option \<Rightarrow> string \<Rightarrow> bool" where
  \<comment> \<open>\<open>\b\<close>: exactly one of the two neighbours is a word character\<close>
  "is_boundary p r =
     ((case p of None \<Rightarrow> False | Some c \<Rightarrow> is_word c) \<noteq> (case r of [] \<Rightarrow> False | c # _ \<Rightarrow> is_word c))"

definition capture :: "nat \<Rightarrow> mstate \<Rightarrow> mstate \<Rightarrow> mstate" where
  \<comment> \<open>group \<open>n\<close> becomes the text read between state \<open>s\<close> and state \<open>s'\<close>\<close>
  "capture n s s' = (case s' of (p, r, g) \<Rightarrow>
     (p, r, (n, take (length (rest s) - length r) (rest s)) # g))"

function rx_match :: "rx \<Rightarrow> mstate \<Rightarrow> mstate list" where
  "rx_match Eps s = [s]"
| "rx_match (Chr x) s = (case s of (p, r, g) \<Rightarrow>
     (case r of [] \<Rightarrow> [] | c # cs \<Rightarrow> if c = x then [(Some c, cs, g)] else []))"
| "rx_match (CSet ks) s = (case s of (p, r, g) \<Rightarrow>
     (case r of [] \<Rightarrow> [] | c # cs \<Rightarrow> if list_ex (\<lambda>k. in_cls k c) ks then [(Some c, cs, g)] else []))"
| "rx_match (Seq a b) s = concat (map (rx_match b) (rx_match a s))"
| "rx_match (Alt a b) s = rx_match a s @ rx_match b s"
| "rx_match (Opt a) s = rx_match a s @ [s]"
| "rx_match (Star a) s =
     concat (map (\<lambda>s'. if length (rest s') < length (rest s) then rx_match (Star a) s' else [])
                 (rx_match a s)) @ [s]"
| "rx_match (Grp n a) s = map (capture n s) (rx_match a s)"
| "rx_match WordB s = (case s of (p, r, g) \<Rightarrow> if is_boundary p r then [s] else [])"
  by pat_completeness auto
termination
  by (relation "measures [\<lambda>p. size (fst p), \<lambda>p. length (rest (snd p))]") auto

fun search_from :: "rx \<Rightarrow> char option \<Rightarrow> string \<Rightarrow> mstate option" where
  "search_from p prev [] = (case rx_match p (prev, [], []) of m # _ \<Rightarrow> Some m | [] \<Rightarrow> None)"
| "search_from p prev (c # cs) =
     (case rx_match p (prev, c # cs, []) of m # _ \<Rightarrow> Some m | [] \<Rightarrow> search_from p (Some c) cs)"

definition re_search :: "rx \<Rightarrow> string \<Rightarrow> mstate option" where
  \<comment> \<open>\<open>re.search(pattern, text)\<close>: the leftmost position with a match, and the first match there\<close>
  "re_search p t = search_from p None t"

definition group :: "mstate \<Rightarrow> nat \<Rightarrow> string option" where
  \<comment> \<open>\<open>match.group(n)\<close>\<close>
  "group m n = map_of (snd (snd m)) n"


fun lit :: "string \<Rightarrow> rx" where
  \<comment> \<open>a run of literal characters\<close>
  "lit [] = Eps"
| "lit (c # cs) = Seq (Chr c) (lit cs)"

fun seqs :: "rx list \<Rightarrow> rx" where
  "seqs [] = Eps"
| "seqs (r # rs) = Seq r (seqs rs)"

fun rep_times :: "nat \<Rightarrow> rx \<Rightarrow> rx" where
  "rep_times 0 r = Eps"
| "rep_times (Suc n) r = Seq r (rep_times n r)"

fun rep_upto :: "nat \<Rightarrow> rx \<Rightarrow> rx" where
  "rep_upto 0 r = Eps"
| "rep_upto (Suc n) r = Opt (Seq r (rep_upto n r))"

definition rep :: "nat \<Rightarrow> nat \<Rightarrow> rx \<Rightarrow> rx" where
  \<comment> \<open>greedy \<open>r{m,n}\<close>: \<open>m\<close> copies, then up to \<open>n - m\<close> more, each tried before stopping\<close>
  "rep m n r = Seq (rep_times m r) (rep_upto (n - m) r)"


section \<open>workflows/workflow.py: messages, agents and telemetry\<close>

record AnalysisRequest =
  req_transaction_id :: string
  req_customer_id :: string
  req_amount :: "rat option"
  req_currency :: "string option"

record CustomerDataResponse =
  cd_customer_id :: string
  cd_transaction_id :: string
  cd_analysis :: string
  cd_status :: string
  cd_amount :: "rat option"
  cd_currency :: "string option"

record RiskAnalysisResponse =
  ra_transaction_id :: string
  ra_customer_id :: string
  ra_risk_analysis :: string
  ra_risk_score :: int
  ra_risk_level :: string
  ra_recommendation :: string
  ra_status :: string
  ra_amount :: "rat option"
  ra_currency :: "string option"
  ra_model_confidence :: "rat option"

record FraudAlertResponse =
  fa_transaction_id :: string
  fa_customer_id :: string
  fa_alert_response :: string
  fa_alert_created :: bool
  fa_workflow_status :: string
  fa_risk_score :: int
  fa_risk_level :: string

text \<open>
  A hosted agent is outside the program: \<open>agent.run\<close> either raises (with the text
  \<open>str(e)\<close> of the exception) or returns a response holding the texts of its messages.
  Any other statement of a \<open>try\<close> block may raise as well (the span, the telemetry
  exporters, the clock, the workflow context): a \<open>fault\<close> \<open>Some (k, e)\<close> is the
  environment raising \<open>e\<close> at the statement that follows the \<open>k\<close>-th recorded call of
  the block, \<open>k = 0\<close> being before the agent is called; \<open>None\<close> is no such exception.
\<close>

datatype agent_result = Raises string | Response "string list"

type_synonym agent = "string \<Rightarrow> agent_result"

type_synonym fault = "(nat \<times> string) option"

definition reply_text :: "string list \<Rightarrow> string" where
  \<comment> \<open>\<open>response.messages[-1].text if response.messages else "No response"\<close>\<close>
  "reply_text msgs = (if msgs = [] then ''No response'' else last msgs)"

text \<open>
  What a handler does besides sending its message is kept as the list of the calls it
  makes, in order: the agent call, the business events (by name) and the calls of the
  telemetry manager's \<open>record_...\<close> methods with the arguments that do not come from the
  clock or a random source.
\<close>

datatype event =
    AgentRun string string
  | BusinessEvent string
  | TransactionProcessed string string
  | RiskScoreRecorded int string string
  | ModelPrediction string string rat string
  | CustomerFriction string string string bool
  | FraudAlertCreated string string string string
  | FraudPrevented string rat string string int
  | SarFiled string bool string
  | ExceptionRecorded string


datatype py_error = TypeError | ValueError | AttributeError

definition error_text :: "py_error \<Rightarrow> string" where
  \<comment> \<open>\<open>str(e)\<close>, the name of the exception standing for its message\<close>
  "error_text e = (case e of TypeError \<Rightarrow> ''TypeError'' | ValueError \<Rightarrow> ''ValueError''
                   | AttributeError \<Rightarrow> ''AttributeError'')"

definition py_int :: "string option \<Rightarrow> py_error + int" where
  \<comment> \<open>\<open>int(x)\<close> where \<open>x\<close> is a captured group: \<open>None\<close> is a TypeError, a non-empty run of
      decimal digits is its value, and any other text is taken as a ValueError\<close>
  "py_int x = (case x of
       None \<Rightarrow> Inl TypeError
     | Some d \<Rightarrow> if d \<noteq> [] \<and> list_all is_digit d then Inr (int_of_digits d) else Inl ValueError)"

definition attempt :: "fault \<Rightarrow> event list \<Rightarrow> (event list \<times> string) option" where
  \<comment> \<open>the recorded calls \<open>steps\<close> of a \<open>try\<close> block under a fault: \<open>None\<close> when all of them
      complete, else the calls that completed and the exception raised\<close>
  "attempt fault steps =
     (case fault of
        None \<Rightarrow> None
      | Some (k, e) \<Rightarrow> if k \<le> length steps then Some (take k steps, e) else None)"

subsection \<open>workflows/telemetry.py: the telemetry manager\<close>

text \<open>
  A \<open>TelemetryManager\<close> is created with \<open>tracer = None\<close>; \<open>initialize_observability\<close>
  sets the tracer (and the meter and its instruments).  \<open>create_agent_span\<close> and
  \<open>create_workflow_span\<close> call \<open>self.tracer.start_as_current_span\<close>, which is an
  AttributeError on \<open>None\<close>.  The \<open>record_...\<close> methods test their instrument before
  using it and do not depend on the tracer.  Each import of the file under another module
  name has a manager of its own: \<open>workflow.py\<close> uses the one of module \<open>telemetry\<close>, which
  \<open>main\<close> of \<open>workflow.py\<close> initialises, while the batch simulator initialises the one
  of module \<open>workflows.telemetry\<close>.
\<close>

record TelemetryManager =
  tracer :: "string option"

definition new_TelemetryManager :: TelemetryManager where
  \<comment> \<open>\<open>TelemetryManager()\<close>\<close>
  "new_TelemetryManager = \<lparr>tracer = None\<rparr>"

definition initialize_observability :: "TelemetryManager \<Rightarrow> TelemetryManager" where
  "initialize_observability tm =
     (case tracer tm of None \<Rightarrow> tm\<lparr>tracer := Some ''fraud_detection_workflow''\<rparr> | Some t \<Rightarrow> tm)"

definition create_agent_span :: "TelemetryManager \<Rightarrow> string \<Rightarrow> string \<Rightarrow> py_error + string" where
  \<comment> \<open>the name of the span that is opened\<close>
  "create_agent_span tm agent_name operation =
     (case tracer tm of
        None \<Rightarrow> Inl AttributeError
      | Some t \<Rightarrow> Inr (''agent.'' @ agent_name @ ''.'' @ operation))"

subsection \<open>CustomerDataAgentExecutor\<close>

definition customer_prompt :: "AnalysisRequest \<Rightarrow> string" where
  "customer_prompt request =
     ''Analyze customer '' @ req_customer_id request @ '' and their transactions '' @
     ''comprehensively for fraud detection purposes.''"

definition customer_error_response :: "AnalysisRequest \<Rightarrow> string \<Rightarrow> CustomerDataResponse" where
  \<comment> \<open>the message of the \<open>except\<close> branch\<close>
  "customer_error_response request e =
     \<lparr>cd_customer_id = req_customer_id request,
      cd_transaction_id = req_transaction_id request,
      cd_analysis = ''Error: '' @ e,
      cd_status = ''ERROR'',
      cd_amount = None,
      cd_currency = Some ''USD''\<rparr>"

definition customer_calls :: "AnalysisRequest \<Rightarrow> string \<Rightarrow> event list" where
  \<comment> \<open>the calls of the \<open>try\<close> block, from the agent call on\<close>
  "customer_calls request prompt =
     [AgentRun ''CustomerDataAgent'' prompt,
      TransactionProcessed ''customer_data'' (req_transaction_id request),
      BusinessEvent ''fraud_detection.customer_data.completed'']"

definition customer_success_response :: "AnalysisRequest \<Rightarrow> string \<Rightarrow> CustomerDataResponse" where
  \<comment> \<open>the message at the end of the \<open>try\<close> block\<close>
  "customer_success_response request analysis =
     \<lparr>cd_customer_id = req_customer_id request,
      cd_transaction_id = req_transaction_id request,
      cd_analysis = analysis,
      cd_status = ''SUCCESS'',
      cd_amount = req_amount request,
      cd_currency = req_currency request\<rparr>"

definition CustomerDataAgentExecutor_handle ::
  "TelemetryManager \<Rightarrow> fault \<Rightarrow> agent \<Rightarrow> AnalysisRequest
     \<Rightarrow> py_error + CustomerDataResponse \<times> event list" where
  \<comment> \<open>\<open>Inl\<close>: the handler raises, which opening the span does outside the \<open>try\<close>;
      \<open>Inr\<close>: the message it sends and the calls it made\<close>
  "CustomerDataAgentExecutor_handle telemetry fault agent request =
     (case create_agent_span telemetry ''CustomerDataAgent'' ''data_retrieval'' of
        Inl err \<Rightarrow> Inl err
      | Inr opened \<Rightarrow>
          (let started = [BusinessEvent ''fraud_detection.customer_data.started''];
               prompt = customer_prompt request
           in Inr
             (case attempt fault [] of
                Some (finished, e) \<Rightarrow>
                  (customer_error_response request e, started @ [ExceptionRecorded e])
              | None \<Rightarrow>
                  (case agent prompt of
                     Raises e \<Rightarrow>
                       (customer_error_response request e,
                        started @ [AgentRun ''CustomerDataAgent'' prompt, ExceptionRecorded e])
                   | Response msgs \<Rightarrow>
                       (case attempt fault (customer_calls request prompt) of
                          Some (finished, e) \<Rightarrow>
                            (customer_error_response request e,
                             started @ finished @ [ExceptionRecorded e])
                        | None \<Rightarrow>
                            (customer_success_response request (reply_text msgs),
                             started @ customer_calls request prompt))))))"

subsection \<open>RiskAnalyserAgentExecutor\<close>

definition sp :: rx where
  "sp = CSet [ClsSpace]"

definition colon_sp :: rx where
  "colon_sp = CSet [ClsChar CHR '':'', ClsSpace]"

definition digits13 :: rx where
  \<comment> \<open>\<open>(\d{1,3})\<close>, group 1\<close>
  "digits13 = Grp 1 (rep 1 3 (CSet [ClsDigit]))"

definition pattern_risk_score :: rx where
  \<comment> \<open>\<open>risk\s*score[:\s]*(\d{1,3})(?:\s*/\s*100)?\<close>\<close>
  "pattern_risk_score =
     seqs [lit ''risk'', Star sp, lit ''score'', Star colon_sp, digits13,
           Opt (seqs [Star sp, Chr CHR ''/'', Star sp, lit ''100''])]"

definition pattern_score_of_100 :: rx where
  \<comment> \<open>\<open>score[:\s]*(\d{1,3})\s*/\s*100\<close>\<close>
  "pattern_score_of_100 =
     seqs [lit ''score'', Star colon_sp, digits13, Star sp, Chr CHR ''/'', Star sp, lit ''100'']"

definition pattern_out_of_100 :: rx where
  \<comment> \<open>\<open>(\d{1,3})\s*(?:out of|/)\s*100\<close>\<close>
  "pattern_out_of_100 =
     seqs [digits13, Star sp, Alt (lit ''out of'') (Chr CHR ''/''), Star sp, lit ''100'']"

definition pattern_bold_risk :: rx where
  \<comment> \<open>\<open>\*\*risk[:\s]*(\d{1,3})\*\*\<close>\<close>
  "pattern_bold_risk = seqs [lit ''**risk'', Star colon_sp, digits13, lit ''**'']"

definition pattern_overall_risk :: rx where
  \<comment> \<open>\<open>overall\s*risk[:\s]*(\d{1,3})\<close>\<close>
  "pattern_overall_risk = seqs [lit ''overall'', Star sp, lit ''risk'', Star colon_sp, digits13]"

definition pattern_assessment :: rx where
  \<comment> \<open>\<open>assessment[:\s]*(\d{1,3})\<close>\<close>
  "pattern_assessment = seqs [lit ''assessment'', Star colon_sp, digits13]"

definition patterns :: "rx list" where
  "patterns = [pattern_risk_score, pattern_score_of_100, pattern_out_of_100,
               pattern_bold_risk, pattern_overall_risk, pattern_assessment]"

definition level_pattern :: "string list \<Rightarrow> rx" where
  \<comment> \<open>\<open>\b(w1|w2|...)\s*(risk)?\<close>\<close>
  "level_pattern ws =
     seqs [WordB, Grp 1 (foldr (\<lambda>w r. Alt (lit w) r) (butlast ws) (lit (last ws))),
           Star sp, Opt (Grp 2 (lit ''risk''))]"

definition high_pattern :: rx where
  "high_pattern = level_pattern [''high'', ''critical'', ''severe'']"

definition medium_pattern :: rx where
  "medium_pattern = level_pattern [''medium'', ''moderate'']"

definition low_pattern :: rx where
  "low_pattern = level_pattern [''low'', ''minimal'']"

fun score_loop :: "rx list \<Rightarrow> string \<Rightarrow> py_error + int option" where
  \<comment> \<open>the \<open>for pattern in patterns\<close> loop; \<open>Inr None\<close> is \<open>risk_score is None\<close> after it\<close>
  "score_loop [] risk_analysis = Inr None"
| "score_loop (pattern # ps) risk_analysis =
     (case re_search pattern (lower risk_analysis) of
        None \<Rightarrow> score_loop ps risk_analysis
      | Some m \<Rightarrow>
          (case py_int (group m 1) of
             Inl e \<Rightarrow> Inl e
           | Inr score \<Rightarrow>
               if 0 \<le> score \<and> score \<le> 100 then Inr (Some score)
               else score_loop ps risk_analysis))"

definition fallback_score :: "string \<Rightarrow> int" where
  "fallback_score risk_analysis =
     (if re_search high_pattern (lower risk_analysis) \<noteq> None then 85
      else if re_search medium_pattern (lower risk_analysis) \<noteq> None then 55
      else if re_search low_pattern (lower risk_analysis) \<noteq> None then 25
      else 50)"

definition parse_risk_score :: "string \<Rightarrow> py_error + int" where
  "parse_risk_score risk_analysis =
     (case score_loop patterns risk_analysis of
        Inl e \<Rightarrow> Inl e
      | Inr (Some score) \<Rightarrow> Inr score
      | Inr None \<Rightarrow> Inr (fallback_score risk_analysis))"

definition risk_level_of :: "int \<Rightarrow> string" where
  "risk_level_of risk_score =
     (if risk_score \<ge> 75 then ''HIGH'' else if risk_score \<ge> 40 then ''MEDIUM'' else ''LOW'')"

definition recommendation_of :: "string \<Rightarrow> string" where
  "recommendation_of risk_level =
     (if risk_level = ''HIGH'' then ''BLOCK''
      else if risk_level = ''MEDIUM'' then ''INVESTIGATE'' else ''ALLOW'')"

definition confidence_of :: "int \<Rightarrow> rat" where
  \<comment> \<open>\<open>abs(risk_score - 50) / 50\<close>: the true division of two integers, a float\<close>
  "confidence_of risk_score = int_truediv \<bar>risk_score - 50\<bar> 50"

definition risk_prompt :: "CustomerDataResponse \<Rightarrow> string" where
  "risk_prompt customer_response =
     ''Based on this customer data analysis, perform a comprehensive '' @
     ''risk assessment:'' @ [CHR 0x0A, CHR 0x0A] @ cd_analysis customer_response @ [CHR 0x0A, CHR 0x0A] @
     ''Transaction ID: '' @ cd_transaction_id customer_response @ [CHR 0x0A] @
     ''Customer ID: '' @ cd_customer_id customer_response @ [CHR 0x0A, CHR 0x0A] @
     ''Provide a complete risk assessment with score (0-100), level '' @
     ''(LOW/MEDIUM/HIGH), and recommendation (ALLOW/INVESTIGATE/BLOCK).''"

definition risk_error_response :: "CustomerDataResponse \<Rightarrow> string \<Rightarrow> RiskAnalysisResponse" where
  \<comment> \<open>the message of the \<open>except\<close> branch\<close>
  "risk_error_response customer_response e =
     \<lparr>ra_transaction_id = cd_transaction_id customer_response,
      ra_customer_id = cd_customer_id customer_response,
      ra_risk_analysis = ''Error: '' @ e,
      ra_risk_score = 0,
      ra_risk_level = ''UNKNOWN'',
      ra_recommendation = ''INVESTIGATE'',
      ra_status = ''ERROR'',
      ra_amount = None,
      ra_currency = Some ''USD'',
      ra_model_confidence = None\<rparr>"


definition risk_calls :: "CustomerDataResponse \<Rightarrow> string \<Rightarrow> int \<Rightarrow> event list" where
  \<comment> \<open>the calls of the \<open>try\<close> block, from the agent call on, for the parsed score\<close>
  "risk_calls customer_response prompt risk_score =
     (let risk_level = risk_level_of risk_score;
          recommendation = recommendation_of risk_level;
          confidence_score = confidence_of risk_score
      in [AgentRun ''RiskAnalyserAgent'' prompt,
          RiskScoreRecorded risk_score (cd_transaction_id customer_response) recommendation,
          ModelPrediction (cd_transaction_id customer_response) ''v2.3.1'' confidence_score
            risk_level] @
         (if recommendation \<in> set [''BLOCK'', ''INVESTIGATE'']
          then [CustomerFriction (cd_customer_id customer_response)
                  (cd_transaction_id customer_response)
                  (if recommendation = ''BLOCK'' then ''transaction_blocked'' else ''step_up_auth'')
                  (recommendation = ''BLOCK'')]
          else []) @
         [BusinessEvent ''fraud_detection.risk_analysis.completed''])"

definition risk_success_response :: "CustomerDataResponse \<Rightarrow> string \<Rightarrow> int \<Rightarrow> RiskAnalysisResponse" where
  \<comment> \<open>the message at the end of the \<open>try\<close> block\<close>
  "risk_success_response customer_response risk_analysis risk_score =
     (let risk_level = risk_level_of risk_score;
          recommendation = recommendation_of risk_level;
          confidence_score = confidence_of risk_score
      in \<lparr>ra_transaction_id = cd_transaction_id customer_response,
          ra_customer_id = cd_customer_id customer_response,
          ra_risk_analysis = risk_analysis,
          ra_risk_score = risk_score,
          ra_risk_level = risk_level,
          ra_recommendation = recommendation,
          ra_status = ''SUCCESS'',
          ra_amount = cd_amount customer_response,
          ra_currency = cd_currency customer_response,
          ra_model_confidence = Some confidence_score\<rparr>)"

definition RiskAnalyserAgentExecutor_handle ::
  "TelemetryManager \<Rightarrow> fault \<Rightarrow> agent \<Rightarrow> CustomerDataResponse
     \<Rightarrow> py_error + RiskAnalysisResponse \<times> event list" where
  "RiskAnalyserAgentExecutor_handle telemetry fault agent customer_response =
     (case create_agent_span telemetry ''RiskAnalyserAgent'' ''risk_analysis'' of
        Inl err \<Rightarrow> Inl err
      | Inr opened \<Rightarrow>
          (let started = [BusinessEvent ''fraud_detection.risk_analysis.started''];
               prompt = risk_prompt customer_response;
               called = [AgentRun ''RiskAnalyserAgent'' prompt]
           in Inr
             (case attempt fault [] of
                Some (finished, e) \<Rightarrow>
                  (risk_error_response customer_response e, started @ [ExceptionRecorded e])
              | None \<Rightarrow>
                  (case agent prompt of
                     Raises e \<Rightarrow>
                       (risk_error_response customer_response e,
                        started @ called @ [ExceptionRecorded e])
                   | Response msgs \<Rightarrow>
                       (case attempt fault called of
                          Some (finished, e) \<Rightarrow>
                            (risk_error_response customer_response e,
                             started @ finished @ [ExceptionRecorded e])
                        | None \<Rightarrow>
                            (case parse_risk_score (reply_text msgs) of
                               Inl err \<Rightarrow>
                                 (risk_error_response customer_response (error_text err),
                                  started @ called @ [ExceptionRecorded (error_text err)])
                             | Inr risk_score \<Rightarrow>
                                 (case attempt fault (risk_calls customer_response prompt risk_score) of
                                    Some (finished, e) \<Rightarrow>
                                      (risk_error_response customer_response e,
                                       started @ finished @ [ExceptionRecorded e])
                                  | None \<Rightarrow>
                                      (risk_success_response customer_response (reply_text msgs) risk_score,
                                       started @ risk_calls customer_response prompt risk_score))))))))"

subsection \<open>FraudAlertAgentExecutor\<close>

definition nl :: string where
  \<comment> \<open>the newline character written \<open>\n\<close> in the source\<close>
  "nl = [CHR 0x0A]"

definition severity_of :: "int \<Rightarrow> string" where
  "severity_of risk_score =
     (if risk_score \<ge> 90 then ''CRITICAL''
      else if risk_score \<ge> 75 then ''HIGH''
      else if risk_score \<ge> 50 then ''MEDIUM'' else ''LOW'')"

definition fraud_prompt :: "RiskAnalysisResponse \<Rightarrow> string \<Rightarrow> string" where
  "fraud_prompt risk_response severity =
     ''Based on this risk analysis, determine if a fraud alert should '' @
     ''be created:'' @ nl @ nl @
     ''Risk Analysis:'' @ nl @ ra_risk_analysis risk_response @ nl @ nl @
     ''Transaction ID: '' @ ra_transaction_id risk_response @ nl @
     ''Customer ID: '' @ ra_customer_id risk_response @ nl @
     ''Risk Score: '' @ str_int (ra_risk_score risk_response) @ ''/100'' @ nl @
     ''Risk Level: '' @ ra_risk_level risk_response @ nl @
     ''Recommendation: '' @ ra_recommendation risk_response @ nl @
     ''Severity: '' @ severity @ nl @ nl @
     ''If risk score >= 40, create a fraud alert. Otherwise explain '' @
     ''why no alert is needed.''"

definition truthy_amount :: "rat option \<Rightarrow> bool" where
  \<comment> \<open>the truth value of an \<open>Optional[float]\<close>: neither \<open>None\<close> nor zero\<close>
  "truthy_amount a = (case a of None \<Rightarrow> False | Some x \<Rightarrow> x \<noteq> 0)"

definition amount_or_0 :: "rat option \<Rightarrow> rat" where
  \<comment> \<open>\<open>(risk_response.amount or 0)\<close>\<close>
  "amount_or_0 a = (case a of None \<Rightarrow> 0 | Some x \<Rightarrow> x)"

definition currency_or_usd :: "string option \<Rightarrow> string" where
  \<comment> \<open>\<open>risk_response.currency or "USD"\<close>\<close>
  "currency_or_usd c = (case c of None \<Rightarrow> ''USD'' | Some x \<Rightarrow> if x = [] then ''USD'' else x)"


definition fraud_error_response :: "RiskAnalysisResponse \<Rightarrow> string \<Rightarrow> FraudAlertResponse" where
  \<comment> \<open>the output of the \<open>except\<close> branch\<close>
  "fraud_error_response risk_response e =
     \<lparr>fa_transaction_id = ra_transaction_id risk_response,
      fa_customer_id = ra_customer_id risk_response,
      fa_alert_response = ''Error: '' @ e,
      fa_alert_created = False,
      fa_workflow_status = ''ERROR'',
      fa_risk_score = ra_risk_score risk_response,
      fa_risk_level = ra_risk_level risk_response\<rparr>"

definition alert_decision :: "RiskAnalysisResponse \<Rightarrow> string \<Rightarrow> bool" where
  \<comment> \<open>\<open>alert_created\<close>\<close>
  "alert_decision risk_response alert_response =
     (contains ''alert created'' (lower alert_response) \<or> ra_risk_score risk_response \<ge> 40)"

definition fraud_calls :: "RiskAnalysisResponse \<Rightarrow> string \<Rightarrow> string \<Rightarrow> event list" where
  \<comment> \<open>the calls of the \<open>try\<close> block, from the agent call on, for the agent's reply\<close>
  "fraud_calls risk_response prompt alert_response =
     (let severity = severity_of (ra_risk_score risk_response);
          alert_created = alert_decision risk_response alert_response;
          amount_threshold = (amount_or_0 (ra_amount risk_response) \<ge> 10000)
      in [AgentRun ''FraudAlertAgent'' prompt] @
         (if alert_created
          then [FraudAlertCreated (''ALERT-'' @ ra_transaction_id risk_response) severity
                  (ra_recommendation risk_response) (ra_transaction_id risk_response)] @
               (if ra_recommendation risk_response = ''BLOCK''
                   \<and> truthy_amount (ra_amount risk_response)
                then [FraudPrevented (ra_transaction_id risk_response)
                        (amount_or_0 (ra_amount risk_response))
                        (currency_or_usd (ra_currency risk_response))
                        ''general_fraud'' (ra_risk_score risk_response)]
                else []) @
               (if severity \<in> set [''CRITICAL'', ''HIGH''] \<or> amount_threshold
                then [SarFiled (ra_transaction_id risk_response) amount_threshold
                        (ra_customer_id risk_response)]
                else [])
          else []) @
         [BusinessEvent ''fraud_detection.fraud_alert.completed''])"

definition fraud_success_response :: "RiskAnalysisResponse \<Rightarrow> string \<Rightarrow> FraudAlertResponse" where
  \<comment> \<open>the output at the end of the \<open>try\<close> block\<close>
  "fraud_success_response risk_response alert_response =
     \<lparr>fa_transaction_id = ra_transaction_id risk_response,
      fa_customer_id = ra_customer_id risk_response,
      fa_alert_response = alert_response,
      fa_alert_created = alert_decision risk_response alert_response,
      fa_workflow_status = ''SUCCESS'',
      fa_risk_score = ra_risk_score risk_response,
      fa_risk_level = ra_risk_level risk_response\<rparr>"

definition FraudAlertAgentExecutor_handle ::
  "TelemetryManager \<Rightarrow> fault \<Rightarrow> agent \<Rightarrow> RiskAnalysisResponse
     \<Rightarrow> py_error + FraudAlertResponse \<times> event list" where
  "FraudAlertAgentExecutor_handle telemetry fault agent risk_response =
     (case create_agent_span telemetry ''FraudAlertAgent'' ''alert_creation'' of
        Inl err \<Rightarrow> Inl err
      | Inr opened \<Rightarrow>
          (let started = [BusinessEvent ''fraud_detection.fraud_alert.started''];
               prompt = fraud_prompt risk_response (severity_of (ra_risk_score risk_response));
               called = [AgentRun ''FraudAlertAgent'' prompt]
           in Inr
             (case attempt fault [] of
                Some (finished, e) \<Rightarrow>
                  (fraud_error_response risk_response e, started @ [ExceptionRecorded e])
              | None \<Rightarrow>
                  (case agent prompt of
                     Raises e \<Rightarrow>
                       (fraud_error_response risk_response e,
                        started @ called @ [ExceptionRecorded e])
                   | Response msgs \<Rightarrow>
                       (case attempt fault (fraud_calls risk_response prompt (reply_text msgs)) of
                          Some (finished, e) \<Rightarrow>
                            (fraud_error_response risk_response e,
                             started @ finished @ [ExceptionRecorded e])
                        | None \<Rightarrow>
                            (fraud_success_response risk_response (reply_text msgs),
                             started @ fraud_calls risk_response prompt (reply_text msgs)))))))"

subsection \<open>The handlers as executors\<close>

text \<open>
  Each \<open>handle\<close> method is declared for one type of message.  What it passes to
  \<open>ctx.send_message\<close> is the message its executor sends, what it passes to
  \<open>ctx.yield_output\<close> is the output its executor yields, and an exception it raises is
  raised by its executor.  \<open>None\<close>: the message is not of the handler's type.
\<close>

datatype message =
    Request AnalysisRequest
  | CustomerData CustomerDataResponse
  | RiskAnalysis RiskAnalysisResponse

record effects =
  sent :: "message list"
  yielded :: "FraudAlertResponse list"
  calls :: "event list"

type_synonym executor = "message \<Rightarrow> (py_error + effects) option"

definition CustomerDataAgentExecutor :: "TelemetryManager \<Rightarrow> fault \<Rightarrow> agent \<Rightarrow> executor" where
  "CustomerDataAgentExecutor telemetry fault agent msg =
     (case msg of
        Request request \<Rightarrow>
          Some (case CustomerDataAgentExecutor_handle telemetry fault agent request of
                  Inl err \<Rightarrow> Inl err
                | Inr (response, evs) \<Rightarrow>
                    Inr \<lparr>sent = [CustomerData response], yielded = [], calls = evs\<rparr>)
      | _ \<Rightarrow> None)"

definition RiskAnalyserAgentExecutor :: "TelemetryManager \<Rightarrow> fault \<Rightarrow> agent \<Rightarrow> executor" where
  "RiskAnalyserAgentExecutor telemetry fault agent msg =
     (case msg of
        CustomerData customer_response \<Rightarrow>
          Some (case RiskAnalyserAgentExecutor_handle telemetry fault agent customer_response of
                  Inl err \<Rightarrow> Inl err
                | Inr (response, evs) \<Rightarrow>
                    Inr \<lparr>sent = [RiskAnalysis response], yielded = [], calls = evs\<rparr>)
      | _ \<Rightarrow> None)"

definition FraudAlertAgentExecutor :: "TelemetryManager \<Rightarrow> fault \<Rightarrow> agent \<Rightarrow> executor" where
  "FraudAlertAgentExecutor telemetry fault agent msg =
     (case msg of
        RiskAnalysis risk_response \<Rightarrow>
          Some (case FraudAlertAgentExecutor_handle telemetry fault agent risk_response of
                  Inl err \<Rightarrow> Inl err
                | Inr (response, evs) \<Rightarrow>
                    Inr \<lparr>sent = [], yielded = [response], calls = evs\<rparr>)
      | _ \<Rightarrow> None)"

subsection \<open>The workflow graph\<close>

text \<open>
  Modelled from the spec: \<open>WorkflowBuilder\<close> and \<open>run_stream\<close> belong to the agent
  framework, a library the repository only calls and does not contain.  They are modelled
  as the message-passing graph the specification describes: a builder collects named
  executors, directed edges and the start executor; a run delivers the request to the
  start executor, delivers every message an executor sends to the targets of its outgoing
  edges in the next round, and collects the outputs the executors yield.  An executor
  handles the messages of the type its handler is declared for and ignores the others.
  An exception that a handler raises ends the run and is raised by \<open>run_stream\<close>.  The
  number of rounds is bounded, as the framework bounds its iterations.
\<close>

record workflow =
  executors :: "(string \<times> executor) list"
  edges :: "(string \<times> string) list"
  start_executor :: "string option"

definition WorkflowBuilder :: workflow where
  "WorkflowBuilder = \<lparr>executors = [], edges = [], start_executor = None\<rparr>"

definition register_executor :: "executor \<Rightarrow> string \<Rightarrow> workflow \<Rightarrow> workflow" where
  "register_executor ex name b = b\<lparr>executors := executors b @ [(name, ex)]\<rparr>"

definition add_edge :: "string \<Rightarrow> string \<Rightarrow> workflow \<Rightarrow> workflow" where
  "add_edge source target b = b\<lparr>edges := edges b @ [(source, target)]\<rparr>"

definition set_start_executor :: "string \<Rightarrow> workflow \<Rightarrow> workflow" where
  "set_start_executor name b = b\<lparr>start_executor := Some name\<rparr>"

type_synonym delivery = "(string \<times> message) list \<times> FraudAlertResponse list \<times> event list"

definition deliver :: "workflow \<Rightarrow> string \<times> message \<Rightarrow> py_error + delivery" where
  \<comment> \<open>one executor handles one message; what it sends goes along its outgoing edges\<close>
  "deliver w d =
     (case d of (name, msg) \<Rightarrow>
        (case map_of (executors w) name of
           None \<Rightarrow> Inr ([], [], [])
         | Some ex \<Rightarrow>
             (case ex msg of
                None \<Rightarrow> Inr ([], [], [])
              | Some (Inl err) \<Rightarrow> Inl err
              | Some (Inr eff) \<Rightarrow>
                  Inr (concat (map (\<lambda>m. map (\<lambda>e. (snd e, m)) (filter (\<lambda>e. fst e = name) (edges w)))
                                   (sent eff)),
                       yielded eff, calls eff))))"

fun deliver_all :: "workflow \<Rightarrow> (string \<times> message) list \<Rightarrow> py_error + delivery list" where
  \<comment> \<open>the deliveries of one round, up to the first handler that raises\<close>
  "deliver_all w [] = Inr []"
| "deliver_all w (d # ds) =
     (case deliver w d of
        Inl err \<Rightarrow> Inl err
      | Inr r \<Rightarrow> (case deliver_all w ds of Inl err \<Rightarrow> Inl err | Inr rs \<Rightarrow> Inr (r # rs)))"

fun run_rounds ::
  "nat \<Rightarrow> workflow \<Rightarrow> (string \<times> message) list \<Rightarrow> FraudAlertResponse list \<times> event list
     \<Rightarrow> (py_error + FraudAlertResponse list \<times> event list) option" where
  \<comment> \<open>\<open>None\<close>: messages are still pending when the bound on the rounds is reached\<close>
  "run_rounds fuel w [] acc = Some (Inr acc)"
| "run_rounds 0 w (d # ds) acc = None"
| "run_rounds (Suc fuel) w (d # ds) acc =
     (case deliver_all w (d # ds) of
        Inl err \<Rightarrow> Some (Inl err)
      | Inr rs \<Rightarrow>
          run_rounds fuel w (concat (map fst rs))
            (fst acc @ concat (map (\<lambda>r. fst (snd r)) rs),
             snd acc @ concat (map (\<lambda>r. snd (snd r)) rs)))"

definition run_stream ::
  "nat \<Rightarrow> workflow \<Rightarrow> AnalysisRequest
     \<Rightarrow> (py_error + FraudAlertResponse list \<times> event list) option" where
  "run_stream fuel w request =
     (case start_executor w of
        None \<Rightarrow> Some (Inr ([], []))
      | Some name \<Rightarrow> run_rounds fuel w [(name, Request request)] ([], []))"

record agents =
  customer_data_agent :: agent
  risk_analyser_agent :: agent
  fraud_alert_agent :: agent

record faults =
  customer_data_fault :: fault
  risk_analyser_fault :: fault
  fraud_alert_fault :: fault

definition fraud_detection_workflow :: "TelemetryManager \<Rightarrow> faults \<Rightarrow> agents \<Rightarrow> workflow" where
  \<comment> \<open>the builder chain of \<open>run_fraud_detection_workflow\<close> and of \<open>main\<close>, call by call;
      the executors use the telemetry manager of the module \<open>workflow.py\<close>\<close>
  "fraud_detection_workflow telemetry fs ags =
     fold (\<lambda>call b. call b)
       [register_executor
          (CustomerDataAgentExecutor telemetry (customer_data_fault fs) (customer_data_agent ags))
          ''CustomerDataAgent'',
        register_executor
          (RiskAnalyserAgentExecutor telemetry (risk_analyser_fault fs) (risk_analyser_agent ags))
          ''RiskAnalyserAgent'',
        register_executor
          (FraudAlertAgentExecutor telemetry (fraud_alert_fault fs) (fraud_alert_agent ags))
          ''FraudAlertAgent'',
        add_edge ''CustomerDataAgent'' ''RiskAnalyserAgent'',
        add_edge ''RiskAnalyserAgent'' ''FraudAlertAgent'',
        set_start_executor ''CustomerDataAgent'']
       WorkflowBuilder"

definition run_fraud_detection_workflow ::
  "nat \<Rightarrow> TelemetryManager \<Rightarrow> faults \<Rightarrow> agents \<Rightarrow> string \<Rightarrow> string \<Rightarrow> rat option \<Rightarrow> string option
     \<Rightarrow> (py_error + FraudAlertResponse option \<times> event list) option" where
  \<comment> \<open>\<open>Some (Inl e)\<close>: the call raises \<open>e\<close>; \<open>Some (Inr (r, evs))\<close>: it returns \<open>r\<close>, the data of
      the last output event, \<open>None\<close> when there was none\<close>
  "run_fraud_detection_workflow fuel telemetry fs ags transaction_id customer_id amount currency =
     (let request = \<lparr>req_transaction_id = transaction_id, req_customer_id = customer_id,
                      req_amount = amount, req_currency = currency\<rparr>
      in case run_stream fuel (fraud_detection_workflow telemetry fs ags) request of
           None \<Rightarrow> None
         | Some (Inl err) \<Rightarrow> Some (Inl err)
         | Some (Inr (outputs, evs)) \<Rightarrow>
             Some (Inr (if outputs = [] then None else Some (last outputs), evs)))"

section \<open>agents/risk_analyser_agent.py\<close>

fun join :: "string \<Rightarrow> string list \<Rightarrow> string" where
  \<comment> \<open>\<open>sep.join(xs)\<close>\<close>
  "join sep [] = []"
| "join sep [x] = x"
| "join sep (x # y # ys) = x @ sep @ join sep (y # ys)"

text \<open>
  The transactions container is the database client, \<open>None\<close> when no database is
  configured.  A query either raises or returns the stored documents; of a document only
  the field \<open>device_trust_score\<close> is read, which may be absent.  How Python prints a
  float inside an f-string is left to the parameter \<open>fmt\<close>.
\<close>

datatype query_result = QueryRaises string | Items "rat option list"

type_synonym container = "string \<Rightarrow> query_result"

definition high_risk_countries :: "string list" where
  "high_risk_countries = [''NG'', ''IR'', ''RU'', ''KP'']"

definition high_amount_threshold_usd :: rat where
  "high_amount_threshold_usd = 10000"

definition suspicious_account_age_days :: int where
  "suspicious_account_age_days = 30"

definition low_device_trust_threshold :: rat where
  "low_device_trust_threshold = 1 / 2"

definition device_factor :: "container option \<Rightarrow> (rat \<Rightarrow> string) \<Rightarrow> string \<Rightarrow> int \<times> string list" where
  \<comment> \<open>the block under \<open>if transactions_container\<close>: what it adds to the score and to the
      factors; an exception of the query is logged and adds nothing\<close>
  "device_factor transactions_container fmt transaction_id =
     (case transactions_container of
        None \<Rightarrow> (0, [])
      | Some query_items \<Rightarrow>
          (case query_items (''SELECT * FROM c WHERE c.id = '' @ [CHR 0x27] @ transaction_id @ [CHR 0x27]) of
             QueryRaises e \<Rightarrow> (0, [])
           | Items [] \<Rightarrow> (0, [])
           | Items (txn # _) \<Rightarrow>
               if (case txn of None \<Rightarrow> 1 | Some t \<Rightarrow> t) < low_device_trust_threshold
               then (15, [''Low device trust score: '' @ (case txn of None \<Rightarrow> ''None'' | Some t \<Rightarrow> fmt t)])
               else (0, [])))"

definition analyze_transaction_risk ::
  "container option \<Rightarrow> (rat \<Rightarrow> string) \<Rightarrow> string \<Rightarrow> string \<Rightarrow> rat \<Rightarrow> int \<Rightarrow> string" where
  "analyze_transaction_risk transactions_container fmt transaction_id customer_country amount_usd
       account_age_days =
     (let (s1, f1) = (if customer_country \<in> set high_risk_countries
                      then (30, [''High-risk country: '' @ customer_country]) else (0, []));
          (s2, f2) = (if amount_usd \<ge> high_amount_threshold_usd
                      then (s1 + 25, f1 @ [''High amount: $'' @ fmt amount_usd]) else (s1, f1));
          (s3, f3) = (if account_age_days \<le> suspicious_account_age_days
                      then (s2 + 20, f2 @ [''New account: '' @ str_int account_age_days @ '' days old''])
                      else (s2, f2));
          (d, fd) = device_factor transactions_container fmt transaction_id;
          risk_score = s3 + d;
          risk_factors_found = f3 @ fd;
          risk_level = (if risk_score \<ge> 75 then ''High''
                        else if risk_score \<ge> 40 then ''Medium'' else ''Low'');
          result = ''Risk Score: '' @ str_int risk_score @ ''/100'' @ nl;
          result = result @ ''Risk Level: '' @ risk_level @ nl
      in result @ (if risk_factors_found \<noteq> []
                   then ''Risk Factors:'' @ nl @ join nl (map (\<lambda>factor. ''  - '' @ factor) risk_factors_found)
                   else ''  - None identified''))"

section \<open>agents/fraud_alert_agent.py\<close>

definition SEVERITY_LEVELS :: "string list" where
  "SEVERITY_LEVELS = [''LOW'', ''MEDIUM'', ''HIGH'', ''CRITICAL'']"

definition STATUS_VALUES :: "string list" where
  "STATUS_VALUES = [''OPEN'', ''INVESTIGATING'', ''RESOLVED'', ''FALSE_POSITIVE'']"

definition DECISION_ACTIONS :: "string list" where
  "DECISION_ACTIONS = [''ALLOW'', ''BLOCK'', ''MONITOR'', ''INVESTIGATE'']"

definition repr_list :: "string list \<Rightarrow> string" where
  \<comment> \<open>how an f-string prints a list of plain strings: \<open>['A', 'B']\<close>\<close>
  "repr_list xs = ''['' @ join '', '' (map (\<lambda>x. [CHR 0x27] @ x @ [CHR 0x27]) xs) @ '']''"

definition check_mark :: string where
  \<comment> \<open>the check-mark sign U+2705 that opens the confirmation, as its UTF-8 bytes\<close>
  "check_mark = [CHR 0xE2, CHR 0x9C, CHR 0x85]"

record alert =
  alert_id :: string
  alert_transaction_id :: string
  alert_customer_id :: string
  alert_risk_score :: int
  alert_severity :: string
  alert_status :: string
  alert_decision_action :: string
  alert_reason :: string
  alert_created_at :: string

text \<open>
  The alerts container holds the stored documents by id; \<open>None\<close> is no database.
  \<open>upsert_raises\<close> is the environment's answer to a write: the text of the exception
  when the service fails.  \<open>dotenv_now\<close> is \<open>dotenv.datetime.now().isoformat()\<close> when
  the module \<open>dotenv\<close> has an attribute \<open>datetime\<close>, and \<open>None\<close> when it has not.
\<close>

type_synonym alerts = "(string \<times> alert) list"

record alert_outcome =
  returned :: string
  document :: "alert option"
  stored :: "alerts option"

definition upsert_item :: "alert \<Rightarrow> alerts \<Rightarrow> alerts" where
  "upsert_item a c = AList.update (alert_id a) a c"

definition create_fraud_alert ::
  "alerts option \<Rightarrow> (alert \<Rightarrow> string option) \<Rightarrow> string option \<Rightarrow>
     string \<Rightarrow> string \<Rightarrow> int \<Rightarrow> string \<Rightarrow> string \<Rightarrow> string \<Rightarrow> string \<Rightarrow> alert_outcome" where
  "create_fraud_alert alerts_container upsert_raises dotenv_now
       transaction_id customer_id risk_score severity status decision_action reason =
     (if severity \<notin> set SEVERITY_LEVELS then
        \<lparr>returned = ''Invalid severity: '' @ severity @ ''. Must be one of '' @ repr_list SEVERITY_LEVELS,
         document = None, stored = alerts_container\<rparr>
      else if status \<notin> set STATUS_VALUES then
        \<lparr>returned = ''Invalid status: '' @ status @ ''. Must be one of '' @ repr_list STATUS_VALUES,
         document = None, stored = alerts_container\<rparr>
      else if decision_action \<notin> set DECISION_ACTIONS then
        \<lparr>returned = ''Invalid decision_action: '' @ decision_action @ ''. Must be one of ''
                      @ repr_list DECISION_ACTIONS,
         document = None, stored = alerts_container\<rparr>
      else
        (let alert = \<lparr>alert_id = ''ALERT-'' @ transaction_id,
                       alert_transaction_id = transaction_id,
                       alert_customer_id = customer_id,
                       alert_risk_score = risk_score,
                       alert_severity = severity,
                       alert_status = status,
                       alert_decision_action = decision_action,
                       alert_reason = reason,
                       alert_created_at =
                         (case dotenv_now of Some t \<Rightarrow> t | None \<Rightarrow> ''2024-01-01T00:00:00'')\<rparr>;
             container' = (case alerts_container of
                             None \<Rightarrow> None
                           | Some c \<Rightarrow> (case upsert_raises alert of
                                          None \<Rightarrow> Some (upsert_item alert c)
                                        | Some e \<Rightarrow> Some c));
             result = check_mark @ '' Fraud Alert Created:'' @ nl;
             result = result @ ''Alert ID: '' @ alert_id alert @ nl;
             result = result @ ''Transaction: '' @ transaction_id @ nl;
             result = result @ ''Customer: '' @ customer_id @ nl;
             result = result @ ''Risk Score: '' @ str_int risk_score @ ''/100'' @ nl;
             result = result @ ''Severity: '' @ severity @ nl;
             result = result @ ''Status: '' @ status @ nl;
             result = result @ ''Decision: '' @ decision_action @ nl;
             result = result @ ''Reason: '' @ reason @ nl
         in \<lparr>returned = result, document = Some alert, stored = container'\<rparr>))"



section \<open>batch_run/multi_transaction_simulator.py\<close>

record transaction =
  tx_transaction_id :: string
  tx_customer_id :: string
  tx_amount :: rat
  tx_currency :: string

definition mk_transaction :: "string \<Rightarrow> string \<Rightarrow> rat \<Rightarrow> string \<Rightarrow> transaction" where
  "mk_transaction t c a cur =
     \<lparr>tx_transaction_id = t, tx_customer_id = c, tx_amount = a, tx_currency = cur\<rparr>"

definition AVAILABLE_TRANSACTIONS :: "transaction list" where
  "AVAILABLE_TRANSACTIONS =
     [
      mk_transaction ''TX1001'' ''CUST1001'' 5200 ''USD'',
      mk_transaction ''TX1002'' ''CUST1002'' 15000 ''INR'',
      mk_transaction ''TX1003'' ''CUST1003'' 300 ''CNY'',
      mk_transaction ''TX1004'' ''CUST1004'' 9900 ''AED'',
      mk_transaction ''TX1005'' ''CUST1005'' 200 ''EUR'',
      mk_transaction ''TX1006'' ''CUST1006'' 70 ''GBP'',
      mk_transaction ''TX1007'' ''CUST1007'' 1800 ''RUB'',
      mk_transaction ''TX1008'' ''CUST1008'' 40 ''SOS'',
      mk_transaction ''TX1009'' ''CUST1009'' 90 ''ILS'',
      mk_transaction ''TX1010'' ''CUST1010'' 600 ''IRR'',
      mk_transaction ''TX1011'' ''CUST1011'' 220 ''KRW'',
      mk_transaction ''TX1012'' ''CUST1012'' 1100 ''SYP'',
      mk_transaction ''TX1013'' ''CUST1013'' 60 ''EUR'',
      mk_transaction ''TX1014'' ''CUST1014'' 25 ''YER'',
      mk_transaction ''TX2001'' ''CUST1005'' 9999 ''EUR'',
      mk_transaction ''TX2002'' ''CUST1005'' 9998 ''EUR'',
      mk_transaction ''TX2003'' ''CUST1005'' 9997 ''EUR'' ]"

text \<open>
  The transactions are dictionaries, which Python shares by reference and updates in
  place.  The heap is the list of all dictionaries, a reference is an index into it, and
  the \<open>i\<close>-th entry of the module's list \<open>AVAILABLE_TRANSACTIONS\<close> lives at address \<open>i\<close>.
  \<open>dict_copy\<close> is \<open>d.copy()\<close>: a new dictionary with the same items.
\<close>

type_synonym heap = "transaction list"

definition module_heap :: heap where
  "module_heap = AVAILABLE_TRANSACTIONS"

definition dict_copy :: "heap \<Rightarrow> nat \<Rightarrow> heap \<times> nat" where
  "dict_copy h r = (h @ [h ! r], length h)"

definition set_transaction_id :: "heap \<Rightarrow> nat \<Rightarrow> string \<Rightarrow> heap" where
  \<comment> \<open>\<open>tx["transaction_id"] = v\<close>\<close>
  "set_transaction_id h r v = h[r := (h ! r)\<lparr>tx_transaction_id := v\<rparr>]"

definition prepare_step :: "nat \<Rightarrow> heap \<times> nat list \<Rightarrow> heap \<times> nat list" where
  \<comment> \<open>one round of the loop \<open>for i in range(num_transactions)\<close>; the index
      \<open>i % len(AVAILABLE_TRANSACTIONS)\<close> is always in range\<close>
  "prepare_step i st =
     (case st of (h, transactions) \<Rightarrow>
        (case dict_copy h (i mod length AVAILABLE_TRANSACTIONS) of (h1, tx) \<Rightarrow>
           (let h2 = (if i \<ge> length AVAILABLE_TRANSACTIONS
                      then set_transaction_id h1 tx
                             (tx_transaction_id (h1 ! tx) @ ''-'' @
                              str_int (int (i div length AVAILABLE_TRANSACTIONS)))
                      else h1)
            in (h2, transactions @ [tx]))))"

definition prepare_transactions :: "int \<Rightarrow> heap \<times> nat list" where
  \<comment> \<open>\<open>range(n)\<close> is empty when \<open>n\<close> is not positive\<close>
  "prepare_transactions num_transactions =
     fold prepare_step [0..<nat num_transactions] (module_heap, [])"

definition swap :: "nat \<Rightarrow> nat \<Rightarrow> 'a list \<Rightarrow> 'a list" where
  \<comment> \<open>\<open>x[i], x[j] = x[j], x[i]\<close>\<close>
  "swap i j x = x[i := x ! j, j := x ! i]"

definition shuffle :: "(nat \<Rightarrow> nat) \<Rightarrow> 'a list \<Rightarrow> 'a list" where
  \<comment> \<open>\<open>random.shuffle(x)\<close> of the standard library: for \<open>i\<close> from \<open>len(x) - 1\<close> down to 1,
      exchange \<open>x[i]\<close> with \<open>x[j]\<close>, \<open>j\<close> drawn below \<open>i + 1\<close>; \<open>draw\<close> is the random source\<close>
  "shuffle draw x = fold (\<lambda>i x. swap i (draw (Suc i) mod Suc i) x) (rev [1..<length x]) x"

record TransactionResult =
  tr_transaction_id :: string
  tr_customer_id :: string
  tr_amount :: rat
  tr_currency :: string
  tr_risk_score :: int
  tr_risk_level :: string
  tr_alert_created :: bool
  tr_alert_severity :: string
  tr_processing_time :: rat
  tr_status :: string
  tr_error_message :: "string option"

record BatchRunSummary =
  total_transactions :: int
  successful :: int
  failed :: int
  alerts_created :: int
  total_amount_processed :: rat
  total_amount_blocked :: rat
  avg_processing_time :: rat
  avg_risk_score :: rat
  risk_distribution :: "(string \<times> int) list"
  alert_severity_distribution :: "(string \<times> int) list"
  results :: "TransactionResult list"

text \<open>
  \<open>run_workflow\<close> stands for the call of \<open>run_fraud_detection_workflow\<close> on one
  transaction: it either raises or returns the final result, which is \<open>None\<close> when the
  workflow yielded no output.  The time a run takes comes from the clock and is a
  parameter.  The workflow span is opened inside the \<open>try\<close>, on the manager the simulator
  was given.
\<close>

datatype workflow_outcome = WorkflowRaises string | WorkflowReturns "FraudAlertResponse option"

definition create_workflow_span :: "TelemetryManager \<Rightarrow> string \<Rightarrow> py_error + string" where
  "create_workflow_span tm workflow_name =
     (case tracer tm of None \<Rightarrow> Inl AttributeError | Some t \<Rightarrow> Inr workflow_name)"

definition process_single_transaction ::
  "TelemetryManager \<Rightarrow> (transaction \<Rightarrow> workflow_outcome) \<Rightarrow> rat \<Rightarrow> transaction \<Rightarrow> TransactionResult" where
  "process_single_transaction telemetry_manager run_workflow elapsed transaction =
     (let result = \<lparr>tr_transaction_id = tx_transaction_id transaction,
                     tr_customer_id = tx_customer_id transaction,
                     tr_amount = tx_amount transaction,
                     tr_currency = tx_currency transaction,
                     tr_risk_score = 0,
                     tr_risk_level = ''UNKNOWN'',
                     tr_alert_created = False,
                     tr_alert_severity = ''NONE'',
                     tr_processing_time = 0,
                     tr_status = ''PENDING'',
                     tr_error_message = None\<rparr>;
          result =
            (case create_workflow_span telemetry_manager ''batch_transaction_processing'' of
               Inl err \<Rightarrow> result\<lparr>tr_status := ''ERROR'', tr_error_message := Some (error_text err)\<rparr>
             | Inr opened \<Rightarrow>
                (case run_workflow transaction of
                   WorkflowRaises e \<Rightarrow> result\<lparr>tr_status := ''ERROR'', tr_error_message := Some e\<rparr>
                 | WorkflowReturns None \<Rightarrow> result\<lparr>tr_status := ''NO_RESULT''\<rparr>
                 | WorkflowReturns (Some workflow_result) \<Rightarrow>
                     (let result = result\<lparr>tr_status := fa_workflow_status workflow_result,
                                           tr_alert_created := fa_alert_created workflow_result,
                                           tr_risk_score := fa_risk_score workflow_result,
                                           tr_risk_level := fa_risk_level workflow_result\<rparr>
                      in if tr_alert_created result
                         then result\<lparr>tr_alert_severity :=
                                (if tr_risk_score result \<ge> 90 then ''CRITICAL''
                                 else if tr_risk_score result \<ge> 75 then ''HIGH''
                                 else if tr_risk_score result \<ge> 50 then ''MEDIUM''
                                 else ''LOW'')\<rparr>
                         else result)))
      in result\<lparr>tr_processing_time := elapsed\<rparr>)"

definition dict_incr :: "(string \<times> int) list \<Rightarrow> string \<Rightarrow> (string \<times> int) list" where
  \<comment> \<open>\<open>d[k] = d.get(k, 0) + 1\<close>\<close>
  "dict_incr d k = AList.update k ((case map_of d k of None \<Rightarrow> 0 | Some v \<Rightarrow> v) + 1) d"

definition record_result :: "TransactionResult \<Rightarrow> BatchRunSummary \<Rightarrow> BatchRunSummary" where
  \<comment> \<open>the updates of the summary in the body of the processing loop\<close>
  "record_result result summary =
     (let summary = summary\<lparr>results := results summary @ [result]\<rparr>;
          summary = (if tr_status result = ''SUCCESS''
                     then summary\<lparr>successful := successful summary + 1\<rparr>
                     else summary\<lparr>failed := failed summary + 1\<rparr>);
          summary = (if tr_alert_created result
                     then summary\<lparr>alerts_created := alerts_created summary + 1,
                                  total_amount_blocked :=
                                    float_add (total_amount_blocked summary) (tr_amount result),
                                  alert_severity_distribution :=
                                    dict_incr (alert_severity_distribution summary)
                                      (tr_alert_severity result)\<rparr>
                     else summary);
          summary = summary\<lparr>risk_distribution :=
                              dict_incr (risk_distribution summary) (tr_risk_level result)\<rparr>
      in summary\<lparr>total_amount_processed :=
                   float_add (total_amount_processed summary) (tr_amount result)\<rparr>)"

fun batch_loop ::
  "TelemetryManager \<Rightarrow> (nat \<Rightarrow> transaction \<Rightarrow> workflow_outcome) \<Rightarrow> (nat \<Rightarrow> rat)
     \<Rightarrow> (nat \<times> transaction) list \<Rightarrow> BatchRunSummary \<Rightarrow> BatchRunSummary" where
  \<comment> \<open>\<open>for i, transaction in enumerate(transactions, 1)\<close>; the \<open>i\<close>-th run of the workflow
      and its duration are the \<open>i\<close>-th answers of the environment\<close>
  "batch_loop telemetry run_workflow elapsed [] summary = summary"
| "batch_loop telemetry run_workflow elapsed ((i, transaction) # following) summary =
     batch_loop telemetry run_workflow elapsed following
       (record_result
          (process_single_transaction telemetry (run_workflow i) (elapsed i) transaction) summary)"

definition calculate_averages :: "(rat list \<Rightarrow> rat) \<Rightarrow> BatchRunSummary \<Rightarrow> BatchRunSummary" where
  \<comment> \<open>\<open>float_sum\<close> is the built-in \<open>sum\<close> on floats, whose rounding is the interpreter's;
      the sum of the risk scores is a sum of integers\<close>
  "calculate_averages float_sum summary =
     (if successful summary > 0
      then (let successful_results = filter (\<lambda>r. tr_status r = ''SUCCESS'') (results summary)
            in summary\<lparr>avg_processing_time :=
                          float_div_int (float_sum (map tr_processing_time successful_results))
                            (length successful_results),
                        avg_risk_score :=
                          int_truediv (sum_list (map tr_risk_score successful_results))
                            (int (length successful_results))\<rparr>)
      else summary)"

definition empty_summary :: BatchRunSummary where
  \<comment> \<open>\<open>BatchRunSummary()\<close>\<close>
  "empty_summary =
     \<lparr>total_transactions = 0, successful = 0, failed = 0, alerts_created = 0,
      total_amount_processed = 0, total_amount_blocked = 0, avg_processing_time = 0,
      avg_risk_score = 0, risk_distribution = [], alert_severity_distribution = [],
      results = []\<rparr>"

definition run_batch_simulation ::
  "TelemetryManager \<Rightarrow> (nat \<Rightarrow> transaction \<Rightarrow> workflow_outcome) \<Rightarrow> (nat \<Rightarrow> rat)
     \<Rightarrow> (rat list \<Rightarrow> rat) \<Rightarrow> (nat \<Rightarrow> nat) \<Rightarrow> int \<Rightarrow> bool \<Rightarrow> BatchRunSummary" where
  \<comment> \<open>\<open>workflows_telemetry\<close> is the manager of module \<open>workflows.telemetry\<close>, which
      \<open>initialize_telemetry()\<close> initialises before anything else\<close>
  "run_batch_simulation workflows_telemetry run_workflow elapsed float_sum draw num_transactions
       shuffle_transactions =
     (let telemetry = initialize_observability workflows_telemetry
      in case prepare_transactions num_transactions of (h, transactions) \<Rightarrow>
        (let summary = empty_summary\<lparr>total_transactions := num_transactions\<rparr>;
             transactions = (if shuffle_transactions then shuffle draw transactions else transactions);
             numbered = zip [1..<Suc (length transactions)] (map (\<lambda>r. h ! r) transactions)
         in calculate_averages float_sum
              (batch_loop telemetry run_workflow elapsed numbered summary)))"

section \<open>Notions used to state and prove the properties\<close>

subsection \<open>Risk-score extraction\<close>

text \<open>
  \<open>has_group n r\<close>: the pattern contains a group numbered \<open>n\<close>.  \<open>sure_group r\<close>: the
  pattern is a sequence in which the group \<open>(\d{1,3})\<close> is matched on every path and no
  later part overwrites it.  \<open>captures_digits m\<close>: in the match \<open>m\<close>, group 1 is a
  non-empty run of decimal digits.
\<close>

fun has_group :: "nat \<Rightarrow> rx \<Rightarrow> bool" where
  "has_group n (Seq a b) = (has_group n a \<or> has_group n b)"
| "has_group n (Alt a b) = (has_group n a \<or> has_group n b)"
| "has_group n (Opt a) = has_group n a"
| "has_group n (Star a) = has_group n a"
| "has_group n (Grp k a) = (k = n \<or> has_group n a)"
| "has_group n _ = False"

definition captures_digits :: "mstate \<Rightarrow> bool" where
  "captures_digits m = (case group m 1 of None \<Rightarrow> False | Some d \<Rightarrow> d \<noteq> [] \<and> list_all is_digit d)"

fun sure_group :: "rx \<Rightarrow> bool" where
  "sure_group (Seq a b) = (sure_group b \<or> (sure_group a \<and> \<not> has_group 1 b))"
| "sure_group (Grp n a) = (Grp n a = digits13)"
| "sure_group _ = False"

text \<open>
  The extraction in the words of the specification: the integer a pattern captures in
  a text, and the first captured integer, in the order of the patterns, that lies
  between 0 and 100.
\<close>

definition captured_integer :: "rx \<Rightarrow> string \<Rightarrow> int option" where
  "captured_integer p t =
     (case re_search p t of None \<Rightarrow> None | Some m \<Rightarrow> map_option int_of_digits (group m 1))"

definition first_score_in_range :: "rx list \<Rightarrow> string \<Rightarrow> int option" where
  "first_score_in_range ps t =
     (case filter (\<lambda>n. 0 \<le> n \<and> n \<le> 100) (List.map_filter (\<lambda>p. captured_integer p (lower t)) ps) of
        [] \<Rightarrow> None | n # _ \<Rightarrow> Some n)"

subsection \<open>The stages in sequence and the kinds of recorded calls\<close>

text \<open>
  The sequential composition of the three stage handlers: each handler is applied to
  the response of the one before it, the calls they make follow one another, and an
  exception that a handler raises is the exception of the whole.
\<close>

definition sequential_pipeline ::
  "TelemetryManager \<Rightarrow> faults \<Rightarrow> agents \<Rightarrow> AnalysisRequest \<Rightarrow> py_error + FraudAlertResponse \<times> event list" where
  "sequential_pipeline telemetry fs ags request =
     (case CustomerDataAgentExecutor_handle telemetry (customer_data_fault fs)
             (customer_data_agent ags) request of
        Inl err \<Rightarrow> Inl err
      | Inr (customer_response, evs1) \<Rightarrow>
          (case RiskAnalyserAgentExecutor_handle telemetry (risk_analyser_fault fs)
                  (risk_analyser_agent ags) customer_response of
             Inl err \<Rightarrow> Inl err
           | Inr (risk_response, evs2) \<Rightarrow>
               (case FraudAlertAgentExecutor_handle telemetry (fraud_alert_fault fs)
                       (fraud_alert_agent ags) risk_response of
                  Inl err \<Rightarrow> Inl err
                | Inr (alert_response, evs3) \<Rightarrow> Inr (alert_response, evs1 @ evs2 @ evs3))))"

fun is_agent_run :: "event \<Rightarrow> bool" where
  "is_agent_run (AgentRun a p) = True"
| "is_agent_run e = False"


fun is_alert_created :: "event \<Rightarrow> bool" where
  "is_alert_created (FraudAlertCreated a s d t) = True"
| "is_alert_created e = False"



fun is_exception :: "event \<Rightarrow> bool" where
  "is_exception (ExceptionRecorded e) = True"
| "is_exception e = False"

subsection \<open>The risk tool in the words of the specification\<close>

definition factor_sum :: "string \<Rightarrow> rat \<Rightarrow> int \<Rightarrow> int" where
  \<comment> \<open>30 for a high-risk country, plus 25 for a high amount, plus 20 for a new account\<close>
  "factor_sum customer_country amount_usd account_age_days =
     (if customer_country = ''NG'' \<or> customer_country = ''IR'' \<or> customer_country = ''RU''
         \<or> customer_country = ''KP'' then 30 else 0)
     + (if amount_usd \<ge> 10000 then 25 else 0)
     + (if account_age_days \<le> 30 then 20 else 0)"

subsection \<open>The prepared batch in the words of the specification\<close>

definition expected_transaction :: "nat \<Rightarrow> transaction" where
  \<comment> \<open>entry \<open>i mod 17\<close> of the seed data, its id suffixed by \<open>-(i div 17)\<close> from \<open>i = 17\<close> on\<close>
  "expected_transaction i =
     (if i \<ge> 17
      then (AVAILABLE_TRANSACTIONS ! (i mod 17))
             \<lparr>tx_transaction_id := tx_transaction_id (AVAILABLE_TRANSACTIONS ! (i mod 17))
                                     @ ''-'' @ str_int (int (i div 17))\<rparr>
      else AVAILABLE_TRANSACTIONS ! (i mod 17))"

subsection \<open>Concrete inputs of the worked examples\<close>

definition demo_telemetry :: TelemetryManager where
  \<comment> \<open>an initialised manager\<close>
  "demo_telemetry = initialize_observability new_TelemetryManager"

definition demo_agents :: agents where
  "demo_agents =
     \<lparr>customer_data_agent = (\<lambda>prompt. Response [''Customer CUST1002 has 3 transactions on file'']),
      risk_analyser_agent = (\<lambda>prompt. Response [''Risk Score: 80/100'']),
      fraud_alert_agent = (\<lambda>prompt. Response [''Fraud Alert created for TX1002''])\<rparr>"

definition no_faults :: faults where
  "no_faults = \<lparr>customer_data_fault = None, risk_analyser_fault = None, fraud_alert_fault = None\<rparr>"

definition demo_request :: AnalysisRequest where
  "demo_request =
     \<lparr>req_transaction_id = ''TX1002'', req_customer_id = ''CUST1002'',
      req_amount = Some 15000, req_currency = Some ''INR''\<rparr>"

definition failing_agent :: agent where
  "failing_agent = (\<lambda>prompt. Raises ''service unavailable'')"

definition demo_customer_response :: CustomerDataResponse where
  "demo_customer_response =
     \<lparr>cd_customer_id = ''CUST1002'', cd_transaction_id = ''TX1002'',
      cd_analysis = ''Customer CUST1002 has 3 transactions on file'', cd_status = ''SUCCESS'',
      cd_amount = Some 15000, cd_currency = Some ''INR''\<rparr>"

definition demo_risk_response :: RiskAnalysisResponse where
  \<comment> \<open>what the RiskAnalyser stage sends on the reply "Risk Score: 100/100"\<close>
  "demo_risk_response =
     \<lparr>ra_transaction_id = ''TX1002'', ra_customer_id = ''CUST1002'',
      ra_risk_analysis = ''Risk Score: 100/100'', ra_risk_score = 100, ra_risk_level = ''HIGH'',
      ra_recommendation = ''BLOCK'', ra_status = ''SUCCESS'', ra_amount = Some 15000,
      ra_currency = Some ''INR'', ra_model_confidence = Some (int_truediv 50 50)\<rparr>"

definition demo_risk_calls :: "event list" where
  "demo_risk_calls =
     [BusinessEvent ''fraud_detection.risk_analysis.started'',
      AgentRun ''RiskAnalyserAgent'' (risk_prompt demo_customer_response),
      RiskScoreRecorded 100 ''TX1002'' ''BLOCK'',
      ModelPrediction ''TX1002'' ''v2.3.1'' (int_truediv 50 50) ''HIGH'',
      CustomerFriction ''CUST1002'' ''TX1002'' ''transaction_blocked'' True,
      BusinessEvent ''fraud_detection.risk_analysis.completed'']"

definition blocked_risk_response :: RiskAnalysisResponse where
  \<comment> \<open>what the RiskAnalyser stage sends on the reply "Risk Score: 80/100"\<close>
  "blocked_risk_response =
     \<lparr>ra_transaction_id = ''TX1002'', ra_customer_id = ''CUST1002'',
      ra_risk_analysis = ''Risk Score: 80/100'', ra_risk_score = 80, ra_risk_level = ''HIGH'',
      ra_recommendation = ''BLOCK'', ra_status = ''SUCCESS'', ra_amount = Some 15000,
      ra_currency = Some ''INR'', ra_model_confidence = Some (int_truediv 30 50)\<rparr>"

definition blocked_risk_calls :: "event list" where
  "blocked_risk_calls =
     [BusinessEvent ''fraud_detection.risk_analysis.started'',
      AgentRun ''RiskAnalyserAgent'' (risk_prompt demo_customer_response),
      RiskScoreRecorded 80 ''TX1002'' ''BLOCK'',
      ModelPrediction ''TX1002'' ''v2.3.1'' (int_truediv 30 50) ''HIGH'',
      CustomerFriction ''CUST1002'' ''TX1002'' ''transaction_blocked'' True,
      BusinessEvent ''fraud_detection.risk_analysis.completed'']"

definition low_risk_response :: RiskAnalysisResponse where
  "low_risk_response =
     \<lparr>ra_transaction_id = ''TX1003'', ra_customer_id = ''CUST1003'', ra_risk_analysis = ''low risk'',
      ra_risk_score = 25, ra_risk_level = ''LOW'', ra_recommendation = ''ALLOW'', ra_status = ''SUCCESS'',
      ra_amount = Some 300, ra_currency = Some ''CNY'', ra_model_confidence = Some (1 / 2)\<rparr>"

definition low_alert_response :: FraudAlertResponse where
  \<comment> \<open>what the FraudAlert stage yields for it on the reply "No action: Alert Created earlier"\<close>
  "low_alert_response =
     \<lparr>fa_transaction_id = ''TX1003'', fa_customer_id = ''CUST1003'',
      fa_alert_response = ''No action: Alert Created earlier'', fa_alert_created = True,
      fa_workflow_status = ''SUCCESS'', fa_risk_score = 25, fa_risk_level = ''LOW''\<rparr>"

definition low_alert_calls :: "event list" where
  "low_alert_calls =
     [BusinessEvent ''fraud_detection.fraud_alert.started'',
      AgentRun ''FraudAlertAgent'' (fraud_prompt low_risk_response ''LOW''),
      FraudAlertCreated ''ALERT-TX1003'' ''LOW'' ''ALLOW'' ''TX1003'',
      BusinessEvent ''fraud_detection.fraud_alert.completed'']"


definition demo_customer_calls :: "event list" where
  "demo_customer_calls =
     [BusinessEvent ''fraud_detection.customer_data.started'',
      AgentRun ''CustomerDataAgent'' (customer_prompt demo_request),
      TransactionProcessed ''customer_data'' ''TX1002'',
      BusinessEvent ''fraud_detection.customer_data.completed'']"

definition blocked_alert_response :: FraudAlertResponse where
  \<comment> \<open>what the FraudAlert stage yields for the blocked transaction\<close>
  "blocked_alert_response =
     \<lparr>fa_transaction_id = ''TX1002'', fa_customer_id = ''CUST1002'',
      fa_alert_response = ''Fraud Alert created for TX1002'', fa_alert_created = True,
      fa_workflow_status = ''SUCCESS'', fa_risk_score = 80, fa_risk_level = ''HIGH''\<rparr>"

definition blocked_alert_calls :: "event list" where
  "blocked_alert_calls =
     [BusinessEvent ''fraud_detection.fraud_alert.started'',
      AgentRun ''FraudAlertAgent'' (fraud_prompt blocked_risk_response ''HIGH''),
      FraudAlertCreated ''ALERT-TX1002'' ''HIGH'' ''BLOCK'' ''TX1002'',
      FraudPrevented ''TX1002'' 15000 ''INR'' ''general_fraud'' 80,
      SarFiled ''TX1002'' True ''CUST1002'',
      BusinessEvent ''fraud_detection.fraud_alert.completed'']"

section \<open>Verified properties\<close>

subsection \<open>Rounding to a double\<close>

lemma pow2_pos: "0 < pow2 e"
  by (simp add: pow2_def)

lemma pow2_nonpos_inverse_int: "e \<le> 0 \<Longrightarrow> 1 / pow2 e = of_int (2 ^ nat (- e))"
  by (simp add: pow2_def)

lemma round_half_even_error:
  "\<bar>of_int (round_half_even x) - x\<bar> \<le> 1 / 2"
proof -
  have "of_int \<lfloor>x\<rfloor> \<le> x" and "x < of_int \<lfloor>x\<rfloor> + 1" by linarith+
  then show ?thesis by (auto simp: round_half_even_def Let_def)
qed

lemma round_half_even_nonneg: "0 \<le> x \<Longrightarrow> 0 \<le> round_half_even x"
proof -
  assume "0 \<le> x"
  then have "0 \<le> \<lfloor>x\<rfloor>" by simp
  then show ?thesis by (auto simp: round_half_even_def Let_def)
qed

lemma round_half_even_of_int: "round_half_even (of_int k) = k"
  by (simp add: round_half_even_def)

lemma round_half_even_le_int:
  assumes "x \<le> of_int k"
  shows "round_half_even x \<le> k"
proof (cases "x = of_int k")
  case True
  then show ?thesis by (simp add: round_half_even_of_int)
next
  case False
  with assms have lt: "x < of_int k" by simp
  then have f: "\<lfloor>x\<rfloor> < k" by (simp add: floor_less_iff)
  then have "\<lfloor>x\<rfloor> + 1 \<le> k" by simp
  with f show ?thesis by (auto simp: round_half_even_def Let_def)
qed

lemma binade_unit:
  assumes "0 < x" and "x \<le> 1"
  shows "binade x \<le> 0"
proof -
  obtain p q where pq: "quotient_of x = (p, q)" by (cases "quotient_of x")
  then have q: "0 < q" and x: "x = of_int p / of_int q"
    by (simp_all add: quotient_of_denom_pos quotient_of_div)
  from assms x q have "0 < p" by (simp add: zero_less_divide_iff)
  from assms(2) x q have "(of_int p :: rat) \<le> of_int q" by (simp add: divide_le_eq)
  then have "p \<le> q" by simp
  then have "nat p \<le> nat q" by simp
  then have "bitlen p \<le> bitlen q" by (simp add: bitlen_def floorlog_mono)
  then show ?thesis using pq by (simp add: binade_def Let_def)
qed

lemma to_double_unit:
  assumes "0 \<le> x" and "x \<le> 1"
  shows "0 \<le> to_double x \<and> to_double x \<le> 1 \<and> \<bar>to_double x - x\<bar> \<le> 1 / 2 ^ 53"
proof (cases "x = 0")
  case True
  then show ?thesis by (simp add: to_double_def)
next
  case False
  with assms have pos: "0 < x" by simp
  define e where "e = binade x - 52"
  define u where "u = pow2 e"
  define m where "m = round_half_even (x / u)"
  have e: "e \<le> - 52" using binade_unit[OF pos assms(2)] by (simp add: e_def)
  have u: "0 < u" by (simp add: u_def pow2_pos)
  have td: "to_double x = of_int m * u"
    using pos by (simp add: to_double_def Let_def e_def u_def m_def)
  have "0 \<le> x / u" using pos u by simp
  then have m0: "0 \<le> m" unfolding m_def by (rule round_half_even_nonneg)
  have inv: "1 / u = of_int (2 ^ nat (- e))"
    unfolding u_def using e by (intro pow2_nonpos_inverse_int) simp
  have "x / u \<le> 1 / u" using assms(2) u by (simp add: divide_right_mono)
  then have "x / u \<le> of_int (2 ^ nat (- e))" by (simp only: inv)
  then have "m \<le> 2 ^ nat (- e)" unfolding m_def by (rule round_half_even_le_int)
  then have "(of_int m :: rat) \<le> of_int (2 ^ nat (- e))" by (simp only: of_int_le_iff)
  then have "(of_int m :: rat) \<le> 1 / u" by (simp only: inv)
  then have m1: "of_int m * u \<le> 1" using u by (simp add: pos_le_divide_eq)
  have "\<bar>of_int m - x / u\<bar> \<le> 1 / 2" unfolding m_def by (rule round_half_even_error)
  then have "\<bar>of_int m - x / u\<bar> * u \<le> 1 / 2 * u" using u by (intro mult_right_mono) simp_all
  moreover have "\<bar>of_int m - x / u\<bar> * u = \<bar>of_int m * u - x\<bar>"
  proof -
    have "(of_int m - x / u) * u = of_int m * u - x" using u by (simp add: field_simps)
    then have "\<bar>of_int m * u - x\<bar> = \<bar>of_int m - x / u\<bar> * \<bar>u\<bar>"
      by (simp only: abs_mult[symmetric])
    with u show ?thesis by simp
  qed
  ultimately have err: "\<bar>of_int m * u - x\<bar> \<le> u / 2" by simp
  have "u \<le> pow2 (- 52)"
  proof -
    from e have "nat (- e) \<ge> 52" by simp
    then have "(2::rat) ^ 52 \<le> 2 ^ nat (- e)" by (intro power_increasing) simp_all
    then have "1 / (2::rat) ^ nat (- e) \<le> 1 / 2 ^ 52" by (intro divide_left_mono) simp_all
    with e show ?thesis by (simp add: u_def pow2_def)
  qed
  then have "u / 2 \<le> 1 / 2 ^ 53" by (simp add: pow2_def)
  with err have "\<bar>of_int m * u - x\<bar> \<le> 1 / 2 ^ 53" by simp
  with m0 m1 u show ?thesis unfolding td by simp
qed

subsection \<open>The regular-expression matcher\<close>

lemma rest_simp [simp]: "rest (p, r, g) = r" by (simp add: rest_def)
lemma group_simp [simp]: "group (p, r, g) n = map_of g n" by (simp add: group_def)

declare rx_match.simps(7) [simp del]

lemma rx_match_keeps_group:
  "s' \<in> set (rx_match r s) \<Longrightarrow> \<not> has_group n r \<Longrightarrow> group s' n = group s n"
proof (induction r s arbitrary: s' rule: rx_match.induct)
  case (1 s)
  then show ?case by simp
next
  case (2 x s)
  obtain p r g where s: "s = (p, r, g)" by (cases s)
  with "2.prems"(1) show ?case
    by (cases r) (simp_all add: group_def split: if_splits)
next
  case (3 ks s)
  obtain p r g where s: "s = (p, r, g)" by (cases s)
  with "3.prems"(1) show ?case
    by (cases r) (simp_all add: group_def split: if_splits)
next
  case (4 a b s)
  from "4.prems" have na: "\<not> has_group n a" and nb: "\<not> has_group n b" by simp_all
  from "4.prems"(1) obtain m where m: "m \<in> set (rx_match a s)" "s' \<in> set (rx_match b m)"
    by auto
  from "4.IH"(1)[OF m(1) na] "4.IH"(2)[OF m(1) m(2) nb] show ?case by simp
next
  case (5 a b s)
  from "5.prems" have "s' \<in> set (rx_match a s) \<or> s' \<in> set (rx_match b s)"
    and "\<not> has_group n a" and "\<not> has_group n b" by simp_all
  with "5.IH" show ?case by blast
next
  case (6 a s)
  from "6.prems" have "s' \<in> set (rx_match a s) \<or> s' = s" and "\<not> has_group n a" by auto
  with "6.IH" show ?case by blast
next
  case (7 a s)
  from "7.prems"(2) have na: "\<not> has_group n a" by simp
  show ?case
  proof (cases "s' = s")
    case True then show ?thesis by simp
  next
    case False
    from "7.prems"(1) have "s' \<in> set (concat (map (\<lambda>s'. if length (rest s') < length (rest s)
        then rx_match (Star a) s' else []) (rx_match a s)) @ [s])"
      by (subst (asm) rx_match.simps(7))
    with False obtain m where m: "m \<in> set (rx_match a s)" "length (rest m) < length (rest s)"
      "s' \<in> set (rx_match (Star a) m)"
      by (auto split: if_splits)
    from "7.IH"(1)[OF m(1) na] "7.IH"(2)[OF m(1) m(2) m(3) "7.prems"(2)] show ?thesis by simp
  qed
next
  case (8 k a s)
  from "8.prems"(2) have kn: "k \<noteq> n" and na: "\<not> has_group n a" by simp_all
  from "8.prems"(1) obtain m where m: "m \<in> set (rx_match a s)" "s' = capture k s m" by auto
  obtain p r g where mm: "m = (p, r, g)" by (cases m)
  from "8.IH"[OF m(1) na] m(2) kn mm show ?case by (simp add: capture_def group_def)
next
  case (9 s)
  obtain p r g where s: "s = (p, r, g)" by (cases s)
  with "9.prems"(1) show ?case by (simp split: if_splits)
qed


lemma digits13_captures:
  "m \<in> set (rx_match digits13 s) \<Longrightarrow> captures_digits m"
  by (cases s) (auto simp: digits13_def rep_def numeral_eq_Suc captures_digits_def capture_def
      split: list.splits if_splits)


lemma sure_group_captures:
  "sure_group r \<Longrightarrow> m \<in> set (rx_match r s) \<Longrightarrow> captures_digits m"
proof (induction r arbitrary: m s)
  case (Seq a b)
  from Seq.prems(2) obtain k where k: "k \<in> set (rx_match a s)" "m \<in> set (rx_match b k)" by auto
  show ?case
  proof (cases "sure_group b")
    case True
    with Seq.IH(2) k(2) show ?thesis by blast
  next
    case False
    with Seq.prems(1) have a: "sure_group a" and b: "\<not> has_group 1 b" by auto
    from Seq.IH(1)[OF a k(1)] have "captures_digits k" .
    moreover from rx_match_keeps_group[OF k(2) b] have "group m 1 = group k 1" .
    ultimately show ?thesis by (simp add: captures_digits_def)
  qed
next
  case (Grp n a)
  then show ?case using digits13_captures by simp
qed simp_all

lemma search_from_match:
  "search_from p prev t = Some m \<Longrightarrow> \<exists>s. m \<in> set (rx_match p s)"
proof (induction t arbitrary: prev)
  case Nil
  show ?case
  proof (cases "rx_match p (prev, [], [])")
    case Nil
    with Nil.prems show ?thesis by simp
  next
    case (Cons k ks)
    with Nil.prems have "m = k" by simp
    with Cons have "m \<in> set (rx_match p (prev, [], []))" by simp
    then show ?thesis by blast
  qed
next
  case (Cons c cs)
  show ?case
  proof (cases "rx_match p (prev, c # cs, [])")
    case Nil
    with Cons.prems have "search_from p (Some c) cs = Some m" by simp
    with Cons.IH show ?thesis by blast
  next
    case (Cons k ks)
    with Cons.prems have "m = k" by simp
    with Cons have "m \<in> set (rx_match p (prev, c # cs, []))" by simp
    then show ?thesis by blast
  qed
qed

lemma re_search_int:
  assumes "sure_group p" and "re_search p t = Some m"
  shows "\<exists>d. group m 1 = Some d \<and> py_int (group m 1) = Inr (int_of_digits d)"
proof -
  from assms(2) obtain s where "m \<in> set (rx_match p s)"
    unfolding re_search_def using search_from_match by blast
  with assms(1) have "captures_digits m" by (rule sure_group_captures)
  then show ?thesis by (auto simp: captures_digits_def py_int_def split: option.splits)
qed

lemma patterns_sure_group: "\<forall>p \<in> set patterns. sure_group p"
  by (simp add: patterns_def pattern_risk_score_def pattern_score_of_100_def
      pattern_out_of_100_def pattern_bold_risk_def pattern_overall_risk_def
      pattern_assessment_def digits13_def sp_def colon_sp_def)

subsection \<open>RiskAnalyserAgentExecutor: the score and the response\<close>

lemma patterns_listed:
  "patterns = [pattern_risk_score, pattern_score_of_100, pattern_out_of_100,
               pattern_bold_risk, pattern_overall_risk, pattern_assessment]"
  by (simp add: patterns_def)

lemma score_loop_first:
  "\<forall>p \<in> set ps. sure_group p \<Longrightarrow> score_loop ps t = Inr (first_score_in_range ps t)"
proof (induction ps)
  case Nil
  then show ?case by (simp add: first_score_in_range_def List.map_filter_simps)
next
  case (Cons p ps)
  then have IH: "score_loop ps t = Inr (first_score_in_range ps t)" and sg: "sure_group p" by simp_all
  show ?case
  proof (cases "re_search p (lower t)")
    case None
    then show ?thesis using IH
      by (simp add: first_score_in_range_def List.map_filter_simps captured_integer_def)
  next
    case (Some m)
    from re_search_int[OF sg Some] obtain d where
      d: "group m 1 = Some d" "py_int (group m 1) = Inr (int_of_digits d)" by blast
    then show ?thesis using IH Some
      by (simp add: first_score_in_range_def List.map_filter_simps captured_integer_def)
  qed
qed

text \<open>
  C1.  For every reply text, the risk-score extraction of the RiskAnalyser stage tries the
  six patterns in their listed order on the lowercased text and takes the first captured
  integer that lies in [0, 100]; when no pattern yields one, the score is 85 if the text
  matches the high/critical/severe pattern, else 55 if it matches medium/moderate, else 25
  if it matches low/minimal, else 50.  The extraction never raises.
\<close>

theorem risk_score_extraction:
  "parse_risk_score reply =
     Inr (case first_score_in_range patterns reply of
            Some n \<Rightarrow> n
          | None \<Rightarrow>
              if re_search high_pattern (lower reply) \<noteq> None then 85
              else if re_search medium_pattern (lower reply) \<noteq> None then 55
              else if re_search low_pattern (lower reply) \<noteq> None then 25
              else 50)"
  using score_loop_first[OF patterns_sure_group, of reply]
  by (simp add: parse_risk_score_def fallback_score_def split: option.splits)



lemma first_score_in_range_bounds:
  "first_score_in_range ps t = Some n \<Longrightarrow> 0 \<le> n \<and> n \<le> 100"
proof -
  assume a: "first_score_in_range ps t = Some n"
  let ?xs = "filter (\<lambda>n. 0 \<le> n \<and> n \<le> 100) (List.map_filter (\<lambda>p. captured_integer p (lower t)) ps)"
  from a obtain ys where "?xs = n # ys"
    by (auto simp: first_score_in_range_def split: list.splits)
  then have "n \<in> set ?xs" by simp
  then show ?thesis by simp
qed

lemma parse_risk_score_range:
  "\<exists>n. parse_risk_score t = Inr n \<and> 0 \<le> n \<and> n \<le> 100"
proof (cases "first_score_in_range patterns t")
  case None
  with score_loop_first[OF patterns_sure_group, of t] show ?thesis
    by (simp add: parse_risk_score_def fallback_score_def)
next
  case (Some n)
  with score_loop_first[OF patterns_sure_group, of t] first_score_in_range_bounds[OF Some]
  show ?thesis by (simp add: parse_risk_score_def)
qed

theorem risk_score_extraction_witness:
  "parse_risk_score ''Overall: Risk Score: 75/100 (high)'' = Inr 75
   \<and> parse_risk_score ''score: 250/100, a moderate risk'' = Inr 55"
proof -
  have "first_score_in_range patterns ''Overall: Risk Score: 75/100 (high)'' = Some 75"
    by code_simp
  moreover have "first_score_in_range patterns ''score: 250/100, a moderate risk'' = None"
    by code_simp
  moreover have "re_search high_pattern (lower ''score: 250/100, a moderate risk'') = None"
    by code_simp
  moreover have "re_search medium_pattern (lower ''score: 250/100, a moderate risk'') \<noteq> None"
    by code_simp
  ultimately show ?thesis
    using risk_score_extraction[of "''Overall: Risk Score: 75/100 (high)''"]
      risk_score_extraction[of "''score: 250/100, a moderate risk''"]
    by simp
qed

subsection \<open>The outcome of a stage\<close>

lemma attempt_Some:
  "attempt fault steps = Some (fin, e) \<Longrightarrow> \<exists>k. fault = Some (k, e) \<and> fin = take k steps"
  by (auto simp: attempt_def split: option.splits prod.splits if_splits)

lemma filter_take_length: "length (filter P (take k xs)) \<le> length (filter P xs)"
proof -
  have "length (filter P xs) = length (filter P (take k xs @ drop k xs))" by simp
  also have "\<dots> = length (filter P (take k xs)) + length (filter P (drop k xs))"
    by (simp only: filter_append length_append)
  finally show ?thesis by simp
qed

lemma filter_take_nil: "filter P xs = [] \<Longrightarrow> filter P (take k xs) = []"
  using filter_take_length[of P k xs] by simp


lemma risk_success:
  assumes "RiskAnalyserAgentExecutor_handle tm fault agent cr = Inr (r, evs)"
    and "ra_status r = ''SUCCESS''"
  shows "\<exists>msgs n. agent (risk_prompt cr) = Response msgs
       \<and> parse_risk_score (reply_text msgs) = Inr n \<and> 0 \<le> n \<and> n \<le> 100
       \<and> r = risk_success_response cr (reply_text msgs) n
       \<and> evs = BusinessEvent ''fraud_detection.risk_analysis.started''
               # risk_calls cr (risk_prompt cr) n"
proof -
  have e: "ra_status (risk_error_response cr x) \<noteq> ''SUCCESS''" for x
    by (simp add: risk_error_response_def)
  have p: "parse_risk_score t = Inr n \<Longrightarrow> 0 \<le> n \<and> n \<le> 100" for t n
    using parse_risk_score_range[of t] by auto
  from assms e p show ?thesis
    by (simp add: RiskAnalyserAgentExecutor_handle_def Let_def
        split: sum.splits option.splits prod.splits agent_result.splits) blast+
qed

lemma fraud_success:
  assumes "FraudAlertAgentExecutor_handle tm fault agent rr = Inr (r, evs)"
    and "fa_workflow_status r = ''SUCCESS''"
  shows "\<exists>msgs. agent (fraud_prompt rr (severity_of (ra_risk_score rr))) = Response msgs
       \<and> r = fraud_success_response rr (reply_text msgs)
       \<and> evs = BusinessEvent ''fraud_detection.fraud_alert.started''
               # fraud_calls rr (fraud_prompt rr (severity_of (ra_risk_score rr))) (reply_text msgs)"
proof -
  have e: "fa_workflow_status (fraud_error_response rr x) \<noteq> ''SUCCESS''" for x
    by (simp add: fraud_error_response_def)
  from assms e show ?thesis
    by (simp add: FraudAlertAgentExecutor_handle_def Let_def
        split: sum.splits option.splits prod.splits agent_result.splits) blast+
qed

subsection \<open>RiskAnalyserAgentExecutor: the response of a successful stage\<close>

lemma confidence_of_unit:
  assumes "0 \<le> n" and "n \<le> 100"
  shows "0 \<le> confidence_of n \<and> confidence_of n \<le> 1
       \<and> \<bar>confidence_of n - of_int \<bar>n - 50\<bar> / 50\<bar> \<le> 1 / 2 ^ 53"
proof -
  from assms have "\<bar>n - 50\<bar> \<le> 50" by simp
  then have "(of_int \<bar>n - 50\<bar> :: rat) \<le> of_int 50" by (simp only: of_int_le_iff)
  then have "(of_int \<bar>n - 50\<bar> :: rat) / 50 \<le> 1" by simp
  moreover have "0 \<le> (of_int \<bar>n - 50\<bar> :: rat) / 50" by simp
  ultimately show ?thesis
    unfolding confidence_of_def int_truediv_def
    using to_double_unit[of "of_int \<bar>n - 50\<bar> / 50"] by simp
qed

lemma risk_level_cases:
  "(risk_level_of n = ''HIGH'' \<longleftrightarrow> n \<ge> 75)
   \<and> (risk_level_of n = ''MEDIUM'' \<longleftrightarrow> 40 \<le> n \<and> n < 75)
   \<and> (risk_level_of n = ''LOW'' \<longleftrightarrow> n < 40)
   \<and> (recommendation_of (risk_level_of n) = ''BLOCK'' \<longleftrightarrow> risk_level_of n = ''HIGH'')
   \<and> (recommendation_of (risk_level_of n) = ''INVESTIGATE'' \<longleftrightarrow> risk_level_of n = ''MEDIUM'')
   \<and> (recommendation_of (risk_level_of n) = ''ALLOW'' \<longleftrightarrow> risk_level_of n = ''LOW'')"
  by (simp add: risk_level_of_def recommendation_of_def)

text \<open>
  C8, as amended.  Every response of a successful RiskAnalyser stage, whatever the reply
  text, has a risk score between 0 and 100; its level is HIGH exactly when the score is at
  least 75, MEDIUM exactly when it is at least 40 and below 75, and LOW otherwise; its
  recommendation is BLOCK, INVESTIGATE or ALLOW exactly for the levels HIGH, MEDIUM and
  LOW; and its model confidence is the float that Python's division
  \<open>abs(risk_score - 50) / 50\<close> returns: the double nearest to |score - 50| / 50, which is
  within 2^-53 of it and lies between 0 and 1.
\<close>

theorem risk_response_invariant:
  assumes "RiskAnalyserAgentExecutor_handle tm fault agent customer_response = Inr (r, evs)"
    and "ra_status r = ''SUCCESS''"
  shows "0 \<le> ra_risk_score r \<and> ra_risk_score r \<le> 100
       \<and> (ra_risk_level r = ''HIGH'' \<longleftrightarrow> ra_risk_score r \<ge> 75)
       \<and> (ra_risk_level r = ''MEDIUM'' \<longleftrightarrow> 40 \<le> ra_risk_score r \<and> ra_risk_score r < 75)
       \<and> (ra_risk_level r = ''LOW'' \<longleftrightarrow> ra_risk_score r < 40)
       \<and> (ra_recommendation r = ''BLOCK'' \<longleftrightarrow> ra_risk_level r = ''HIGH'')
       \<and> (ra_recommendation r = ''INVESTIGATE'' \<longleftrightarrow> ra_risk_level r = ''MEDIUM'')
       \<and> (ra_recommendation r = ''ALLOW'' \<longleftrightarrow> ra_risk_level r = ''LOW'')
       \<and> (case ra_model_confidence r of
             None \<Rightarrow> False
           | Some c \<Rightarrow> c = to_double (of_int \<bar>ra_risk_score r - 50\<bar> / 50)
                      \<and> \<bar>c - of_int \<bar>ra_risk_score r - 50\<bar> / 50\<bar> \<le> 1 / 2 ^ 53
                      \<and> 0 \<le> c \<and> c \<le> 1)"
proof -
  from risk_success[OF assms] obtain msgs n where
    n: "0 \<le> n" "n \<le> 100"
    and r: "r = risk_success_response customer_response (reply_text msgs) n"
    by blast
  have d: "confidence_of n = to_double (of_int \<bar>n - 50\<bar> / 50)"
    by (simp add: confidence_of_def int_truediv_def)
  from confidence_of_unit[OF n] risk_level_cases[of n] n d show ?thesis
    unfolding r by (simp add: risk_success_response_def Let_def)
qed

theorem risk_response_invariant_witness:
  "RiskAnalyserAgentExecutor_handle demo_telemetry None (\<lambda>prompt. Response [''Risk Score: 100/100''])
      demo_customer_response
     = Inr (demo_risk_response, demo_risk_calls)
   \<and> ra_status demo_risk_response = ''SUCCESS''
   \<and> ra_risk_score demo_risk_response = 100
   \<and> ra_risk_level demo_risk_response = ''HIGH''
   \<and> ra_recommendation demo_risk_response = ''BLOCK''
   \<and> ra_model_confidence demo_risk_response = Some 1"
proof -
  have h: "RiskAnalyserAgentExecutor_handle demo_telemetry None
      (\<lambda>prompt. Response [''Risk Score: 100/100'']) demo_customer_response
     = Inr (demo_risk_response, demo_risk_calls)"
    by code_simp
  have s: "ra_status demo_risk_response = ''SUCCESS''" by code_simp
  have v: "ra_risk_score demo_risk_response = 100" by code_simp
  have c: "ra_model_confidence demo_risk_response = Some (to_double 1)" by code_simp
  have t: "to_double 1 = 1" by code_simp
  from risk_response_invariant[OF h s] h s v c t show ?thesis
    by (simp split: option.splits)
qed

theorem risk_confidence_counterexample:
  "RiskAnalyserAgentExecutor_handle demo_telemetry None (\<lambda>prompt. Response [''Risk Score: 80/100''])
      demo_customer_response
     = Inr (blocked_risk_response, blocked_risk_calls)
   \<and> ra_status blocked_risk_response = ''SUCCESS''
   \<and> ra_risk_score blocked_risk_response = 80
   \<and> ra_model_confidence blocked_risk_response = Some (5404319552844595 / 9007199254740992)
   \<and> ra_model_confidence blocked_risk_response
        \<noteq> Some (of_int \<bar>ra_risk_score blocked_risk_response - 50\<bar> / 50)"
  by code_simp

subsection \<open>FraudAlertAgentExecutor: the alert decision\<close>

lemma starts_with_iff: "starts_with p s \<longleftrightarrow> (\<exists>v. s = p @ v)"
  by (induction p s rule: starts_with.induct) auto

lemma contains_iff: "contains sub s \<longleftrightarrow> (\<exists>u v. s = u @ sub @ v)"
proof (induction s)
  case Nil
  show ?case by (cases sub) auto
next
  case (Cons c cs)
  have "(\<exists>u v. c # cs = u @ sub @ v) \<longleftrightarrow> (\<exists>v. c # cs = sub @ v) \<or> (\<exists>u v. cs = u @ sub @ v)"
  proof
    assume "\<exists>u v. c # cs = u @ sub @ v"
    then obtain u v where uv: "c # cs = u @ sub @ v" by blast
    show "(\<exists>v. c # cs = sub @ v) \<or> (\<exists>u v. cs = u @ sub @ v)"
    proof (cases u)
      case Nil
      with uv show ?thesis by auto
    next
      case (Cons x xs)
      with uv have "cs = xs @ sub @ v" by simp
      then show ?thesis by blast
    qed
  next
    assume "(\<exists>v. c # cs = sub @ v) \<or> (\<exists>u v. cs = u @ sub @ v)"
    then show "\<exists>u v. c # cs = u @ sub @ v"
    proof
      assume "\<exists>v. c # cs = sub @ v"
      then obtain v where "c # cs = [] @ sub @ v" by auto
      then show ?thesis by blast
    next
      assume "\<exists>u v. cs = u @ sub @ v"
      then obtain u v where "c # cs = (c # u) @ sub @ v" by auto
      then show ?thesis by blast
    qed
  qed
  with Cons.IH show ?case by (simp add: starts_with_iff)
qed

lemma severity_of_cases:
  "(severity_of s = ''CRITICAL'' \<longleftrightarrow> s \<ge> 90)
   \<and> (severity_of s = ''HIGH'' \<longleftrightarrow> 75 \<le> s \<and> s < 90)
   \<and> (severity_of s = ''MEDIUM'' \<longleftrightarrow> 50 \<le> s \<and> s < 75)
   \<and> (severity_of s = ''LOW'' \<longleftrightarrow> s < 50)"
  by (simp add: severity_of_def)

text \<open>
  C4.  In every successful run of the FraudAlert stage, an alert is created exactly when
  the lowercased reply of the agent contains the text "alert created" or the incoming risk
  score is at least 40; a created alert is recorded once, under the id ALERT-<transaction>
  and with the severity CRITICAL exactly for scores of at least 90, HIGH for 75 to 89,
  MEDIUM for 50 to 74 and LOW below 50; without an alert nothing is recorded.
\<close>

theorem fraud_alert_decision:
  assumes "FraudAlertAgentExecutor_handle tm fault agent rr = Inr (r, evs)"
    and "fa_workflow_status r = ''SUCCESS''"
  shows "(fa_alert_created r \<longleftrightarrow>
            (\<exists>u v. lower (fa_alert_response r) = u @ ''alert created'' @ v)
            \<or> ra_risk_score rr \<ge> 40)
       \<and> filter is_alert_created evs =
            (if fa_alert_created r
             then [FraudAlertCreated (''ALERT-'' @ ra_transaction_id rr) (severity_of (ra_risk_score rr))
                     (ra_recommendation rr) (ra_transaction_id rr)]
             else [])
       \<and> (severity_of (ra_risk_score rr) = ''CRITICAL'' \<longleftrightarrow> ra_risk_score rr \<ge> 90)
       \<and> (severity_of (ra_risk_score rr) = ''HIGH'' \<longleftrightarrow> 75 \<le> ra_risk_score rr \<and> ra_risk_score rr < 90)
       \<and> (severity_of (ra_risk_score rr) = ''MEDIUM'' \<longleftrightarrow> 50 \<le> ra_risk_score rr \<and> ra_risk_score rr < 75)
       \<and> (severity_of (ra_risk_score rr) = ''LOW'' \<longleftrightarrow> ra_risk_score rr < 50)"
proof -
  from fraud_success[OF assms] obtain msgs where
    r: "r = fraud_success_response rr (reply_text msgs)"
    and e: "evs = BusinessEvent ''fraud_detection.fraud_alert.started''
               # fraud_calls rr (fraud_prompt rr (severity_of (ra_risk_score rr))) (reply_text msgs)"
    by blast
  have c: "filter is_alert_created evs =
      (if alert_decision rr (reply_text msgs)
       then [FraudAlertCreated (''ALERT-'' @ ra_transaction_id rr) (severity_of (ra_risk_score rr))
               (ra_recommendation rr) (ra_transaction_id rr)]
       else [])"
    unfolding e by (simp add: fraud_calls_def Let_def)
  have f: "fa_alert_created r = alert_decision rr (reply_text msgs)"
    "fa_alert_response r = reply_text msgs"
    unfolding r by (simp_all add: fraud_success_response_def)
  show ?thesis
    using severity_of_cases[of "ra_risk_score rr"]
    unfolding c f by (simp add: alert_decision_def contains_iff)
qed

theorem fraud_alert_decision_witness:
  "FraudAlertAgentExecutor_handle demo_telemetry None
      (\<lambda>prompt. Response [''No action: Alert Created earlier'']) low_risk_response
     = Inr (low_alert_response, low_alert_calls)
   \<and> fa_workflow_status low_alert_response = ''SUCCESS''
   \<and> fa_alert_created low_alert_response
   \<and> filter is_alert_created low_alert_calls
     = [FraudAlertCreated ''ALERT-TX1003'' ''LOW'' ''ALLOW'' ''TX1003'']"
proof -
  have h: "FraudAlertAgentExecutor_handle demo_telemetry None
      (\<lambda>prompt. Response [''No action: Alert Created earlier'']) low_risk_response
     = Inr (low_alert_response, low_alert_calls)"
    by code_simp
  have s: "fa_workflow_status low_alert_response = ''SUCCESS''" by code_simp
  have r: "fa_alert_response low_alert_response = ''No action: Alert Created earlier''"
    by code_simp
  have l: "lower ''No action: Alert Created earlier'' = ''no action: '' @ ''alert created'' @ '' earlier''"
    by code_simp
  have v: "severity_of 25 = ''LOW''" by (simp add: severity_of_def)
  have q: "ra_risk_score low_risk_response = 25" "ra_transaction_id low_risk_response = ''TX1003''"
    "ra_recommendation low_risk_response = ''ALLOW''"
    by (simp_all add: low_risk_response_def)
  from l have e: "\<exists>u v. lower ''No action: Alert Created earlier'' = u @ ''alert created'' @ v"
    by blast
  from fraud_alert_decision[OF h s] e h s show ?thesis
    unfolding r q by (simp add: v)
qed

subsection \<open>Business metrics of a run\<close>







subsection \<open>Exceptions of a stage\<close>

lemma customer_calls_kinds:
  "length (filter is_agent_run (customer_calls request prompt)) = 1
   \<and> filter is_exception (customer_calls request prompt) = []"
  by (simp add: customer_calls_def)

lemma risk_calls_kinds:
  "length (filter is_agent_run (risk_calls cr prompt n)) = 1
   \<and> filter is_exception (risk_calls cr prompt n) = []"
  by (simp add: risk_calls_def Let_def)

lemma fraud_calls_kinds:
  "length (filter is_agent_run (fraud_calls rr prompt reply)) = 1
   \<and> filter is_exception (fraud_calls rr prompt reply) = []"
  by (simp add: fraud_calls_def Let_def)

lemma interrupted_calls:
  assumes "attempt fault steps = Some (fin, e)"
    and "length (filter is_agent_run steps) = 1 \<and> filter is_exception steps = []"
  shows "length (filter is_agent_run (ev # fin @ [ExceptionRecorded e]))
           \<le> (if is_agent_run ev then 2 else 1)
       \<and> filter is_exception (BusinessEvent b # fin @ [ExceptionRecorded e]) = [ExceptionRecorded e]"
proof -
  from attempt_Some[OF assms(1)] obtain k where k: "fin = take k steps" by blast
  have a: "length (filter is_agent_run fin) \<le> 1"
    unfolding k using filter_take_length[of is_agent_run k steps] assms(2) by simp
  have b: "filter is_exception fin = []"
    unfolding k using filter_take_nil[of is_exception steps k] assms(2) by simp
  from a b show ?thesis by simp
qed

lemma customer_outcome:
  assumes "tracer tm = Some t"
  shows "\<exists>r evs. CustomerDataAgentExecutor_handle tm fault agent request = Inr (r, evs)
     \<and> length (filter is_agent_run evs) \<le> 1
     \<and> (cd_status r = ''SUCCESS'' \<and> filter is_exception evs = []
        \<or> (\<exists>e. filter is_exception evs = [ExceptionRecorded e]
              \<and> r = customer_error_response request e))"
proof (cases "attempt fault []")
  case (Some p)
  then obtain fin e where "attempt fault [] = Some (fin, e)" by (cases p) simp
  with assms show ?thesis
    by (simp add: CustomerDataAgentExecutor_handle_def create_agent_span_def Let_def)
next
  case None
  note a0 = this
  show ?thesis
  proof (cases "agent (customer_prompt request)")
    case (Raises e)
    with assms a0 show ?thesis
      by (simp add: CustomerDataAgentExecutor_handle_def create_agent_span_def Let_def)
  next
    case (Response msgs)
    show ?thesis
    proof (cases "attempt fault (customer_calls request (customer_prompt request))")
      case None
      with assms a0 Response customer_calls_kinds[of request "customer_prompt request"]
      show ?thesis
        by (simp add: CustomerDataAgentExecutor_handle_def create_agent_span_def Let_def
            customer_success_response_def)
    next
      case (Some p)
      then obtain fin e where
        f: "attempt fault (customer_calls request (customer_prompt request)) = Some (fin, e)"
        by (cases p) simp
      from interrupted_calls[OF f customer_calls_kinds,
          of "BusinessEvent ''fraud_detection.customer_data.started''"
             "''fraud_detection.customer_data.started''"]
        assms a0 Response f
      show ?thesis
        by (simp add: CustomerDataAgentExecutor_handle_def create_agent_span_def Let_def)
    qed
  qed
qed

lemma risk_outcome:
  assumes "tracer tm = Some t"
  shows "\<exists>r evs. RiskAnalyserAgentExecutor_handle tm fault agent cr = Inr (r, evs)
     \<and> length (filter is_agent_run evs) \<le> 1
     \<and> (ra_status r = ''SUCCESS'' \<and> filter is_exception evs = []
        \<or> (\<exists>e. filter is_exception evs = [ExceptionRecorded e]
              \<and> r = risk_error_response cr e))"
proof (cases "attempt fault []")
  case (Some p)
  then obtain fin e where "attempt fault [] = Some (fin, e)" by (cases p) simp
  with assms show ?thesis
    by (simp add: RiskAnalyserAgentExecutor_handle_def create_agent_span_def Let_def)
next
  case None
  note a0 = this
  show ?thesis
  proof (cases "agent (risk_prompt cr)")
    case (Raises e)
    with assms a0 show ?thesis
      by (simp add: RiskAnalyserAgentExecutor_handle_def create_agent_span_def Let_def)
  next
    case (Response msgs)
    show ?thesis
    proof (cases "attempt fault [AgentRun ''RiskAnalyserAgent'' (risk_prompt cr)]")
      case (Some p)
      then obtain fin e where
        f: "attempt fault [AgentRun ''RiskAnalyserAgent'' (risk_prompt cr)] = Some (fin, e)"
        by (cases p) simp
      have "length (filter is_agent_run [AgentRun ''RiskAnalyserAgent'' (risk_prompt cr)]) = 1
          \<and> filter is_exception [AgentRun ''RiskAnalyserAgent'' (risk_prompt cr)] = []"
        by simp
      from interrupted_calls[OF f this,
          of "BusinessEvent ''fraud_detection.risk_analysis.started''"
             "''fraud_detection.risk_analysis.started''"]
        assms a0 Response f
      show ?thesis
        by (simp add: RiskAnalyserAgentExecutor_handle_def create_agent_span_def Let_def)
    next
      case None
      note a1 = this
      obtain n where n: "parse_risk_score (reply_text msgs) = Inr n"
        using parse_risk_score_range by blast
      show ?thesis
      proof (cases "attempt fault (risk_calls cr (risk_prompt cr) n)")
        case None
        with assms a0 a1 Response n risk_calls_kinds[of cr "risk_prompt cr" n]
        show ?thesis
          by (simp add: RiskAnalyserAgentExecutor_handle_def create_agent_span_def Let_def
              risk_success_response_def)
      next
        case (Some p)
        then obtain fin e where
          f: "attempt fault (risk_calls cr (risk_prompt cr) n) = Some (fin, e)"
          by (cases p) simp
        from interrupted_calls[OF f risk_calls_kinds,
            of "BusinessEvent ''fraud_detection.risk_analysis.started''"
               "''fraud_detection.risk_analysis.started''"]
          assms a0 a1 Response n f
        show ?thesis
          by (simp add: RiskAnalyserAgentExecutor_handle_def create_agent_span_def Let_def)
      qed
    qed
  qed
qed

lemma fraud_outcome:
  assumes "tracer tm = Some t"
  shows "\<exists>r evs. FraudAlertAgentExecutor_handle tm fault agent rr = Inr (r, evs)
     \<and> length (filter is_agent_run evs) \<le> 1
     \<and> (fa_workflow_status r = ''SUCCESS'' \<and> filter is_exception evs = []
        \<or> (\<exists>e. filter is_exception evs = [ExceptionRecorded e]
              \<and> r = fraud_error_response rr e))"
proof (cases "attempt fault []")
  case (Some p)
  then obtain fin e where "attempt fault [] = Some (fin, e)" by (cases p) simp
  with assms show ?thesis
    by (simp add: FraudAlertAgentExecutor_handle_def create_agent_span_def Let_def)
next
  case None
  note a0 = this
  let ?prompt = "fraud_prompt rr (severity_of (ra_risk_score rr))"
  show ?thesis
  proof (cases "agent ?prompt")
    case (Raises e)
    with assms a0 show ?thesis
      by (simp add: FraudAlertAgentExecutor_handle_def create_agent_span_def Let_def)
  next
    case (Response msgs)
    show ?thesis
    proof (cases "attempt fault (fraud_calls rr ?prompt (reply_text msgs))")
      case None
      with assms a0 Response fraud_calls_kinds[of rr ?prompt "reply_text msgs"]
      show ?thesis
        by (simp add: FraudAlertAgentExecutor_handle_def create_agent_span_def Let_def
            fraud_success_response_def)
    next
      case (Some p)
      then obtain fin e where
        f: "attempt fault (fraud_calls rr ?prompt (reply_text msgs)) = Some (fin, e)"
        by (cases p) simp
      from interrupted_calls[OF f fraud_calls_kinds,
          of "BusinessEvent ''fraud_detection.fraud_alert.started''"
             "''fraud_detection.fraud_alert.started''"]
        assms a0 Response f
      show ?thesis
        by (simp add: FraudAlertAgentExecutor_handle_def create_agent_span_def Let_def)
    qed
  qed
qed

lemma customer_causes:
  assumes "tracer tm = Some t"
  shows "(agent (customer_prompt request) = Raises e \<longrightarrow>
          CustomerDataAgentExecutor_handle tm None agent request =
            Inr (customer_error_response request e,
                 [BusinessEvent ''fraud_detection.customer_data.started'',
                  AgentRun ''CustomerDataAgent'' (customer_prompt request),
                  ExceptionRecorded e]))
       \<and> CustomerDataAgentExecutor_handle tm (Some (0, e')) agent request =
            Inr (customer_error_response request e',
                 [BusinessEvent ''fraud_detection.customer_data.started'', ExceptionRecorded e'])
       \<and> (agent (customer_prompt request) = Response msgs \<and> 1 \<le> k
            \<and> k \<le> length (customer_calls request (customer_prompt request)) \<longrightarrow>
          CustomerDataAgentExecutor_handle tm (Some (k, e'')) agent request =
            Inr (customer_error_response request e'',
                 BusinessEvent ''fraud_detection.customer_data.started''
                 # take k (customer_calls request (customer_prompt request))
                 @ [ExceptionRecorded e'']))"
  using assms
  by (simp add: CustomerDataAgentExecutor_handle_def create_agent_span_def Let_def attempt_def)

lemma risk_causes:
  assumes "tracer tm = Some t"
  shows "(agent (risk_prompt cr) = Raises e \<longrightarrow>
          RiskAnalyserAgentExecutor_handle tm None agent cr =
            Inr (risk_error_response cr e,
                 [BusinessEvent ''fraud_detection.risk_analysis.started'',
                  AgentRun ''RiskAnalyserAgent'' (risk_prompt cr),
                  ExceptionRecorded e]))
       \<and> RiskAnalyserAgentExecutor_handle tm (Some (0, e')) agent cr =
            Inr (risk_error_response cr e',
                 [BusinessEvent ''fraud_detection.risk_analysis.started'', ExceptionRecorded e'])
       \<and> (agent (risk_prompt cr) = Response msgs \<and> parse_risk_score (reply_text msgs) = Inr n
            \<and> 1 \<le> k \<and> k \<le> length (risk_calls cr (risk_prompt cr) n) \<longrightarrow>
          RiskAnalyserAgentExecutor_handle tm (Some (k, e'')) agent cr =
            Inr (risk_error_response cr e'',
                 BusinessEvent ''fraud_detection.risk_analysis.started''
                 # take k (risk_calls cr (risk_prompt cr) n)
                 @ [ExceptionRecorded e'']))"
proof -
  have h: "take k (risk_calls cr (risk_prompt cr) n) = [AgentRun ''RiskAnalyserAgent'' (risk_prompt cr)]"
    if "k = 1" for k
    unfolding that by (simp add: risk_calls_def Let_def)
  have "k = 1" if "1 \<le> k" "k \<le> Suc 0" for k :: nat using that by simp
  with assms h show ?thesis
    by (auto simp: RiskAnalyserAgentExecutor_handle_def create_agent_span_def Let_def attempt_def)
qed

lemma fraud_causes:
  assumes "tracer tm = Some t"
  shows "(agent (fraud_prompt rr (severity_of (ra_risk_score rr))) = Raises e \<longrightarrow>
          FraudAlertAgentExecutor_handle tm None agent rr =
            Inr (fraud_error_response rr e,
                 [BusinessEvent ''fraud_detection.fraud_alert.started'',
                  AgentRun ''FraudAlertAgent'' (fraud_prompt rr (severity_of (ra_risk_score rr))),
                  ExceptionRecorded e]))
       \<and> FraudAlertAgentExecutor_handle tm (Some (0, e')) agent rr =
            Inr (fraud_error_response rr e',
                 [BusinessEvent ''fraud_detection.fraud_alert.started'', ExceptionRecorded e'])
       \<and> (agent (fraud_prompt rr (severity_of (ra_risk_score rr))) = Response msgs \<and> 1 \<le> k
            \<and> k \<le> length (fraud_calls rr (fraud_prompt rr (severity_of (ra_risk_score rr)))
                             (reply_text msgs)) \<longrightarrow>
          FraudAlertAgentExecutor_handle tm (Some (k, e'')) agent rr =
            Inr (fraud_error_response rr e'',
                 BusinessEvent ''fraud_detection.fraud_alert.started''
                 # take k (fraud_calls rr (fraud_prompt rr (severity_of (ra_risk_score rr)))
                             (reply_text msgs))
                 @ [ExceptionRecorded e'']))"
  using assms
  by (simp add: FraudAlertAgentExecutor_handle_def create_agent_span_def Let_def attempt_def)

text \<open>
  C3, as amended.  In every run of a stage whose span has been opened, the stage calls
  its agent at most once and either completes its \<open>try\<close> block or catches the one
  exception the block raises, records it and reports it: the CustomerData stage sends a
  response with status ERROR and analysis "Error: <message>"; the RiskAnalyser stage sends
  a response with status ERROR, risk score 0, risk level UNKNOWN and recommendation
  INVESTIGATE; the FraudAlert stage yields a response with workflow status ERROR and no
  alert created.  The first two stages send the error response as their message, as they
  send a success response.  This is so when the agent call raises, when a statement
  before the agent call raises, and when a statement after any of the calls of the block
  raises.
\<close>

theorem stage_exceptions_are_reported:
  assumes "tracer tm = Some t"
  shows
   "(\<exists>r evs. CustomerDataAgentExecutor tm f1 customer (Request request)
               = Some (Inr \<lparr>sent = [CustomerData r], yielded = [], calls = evs\<rparr>)
        \<and> length (filter is_agent_run evs) \<le> 1
        \<and> (cd_status r = ''SUCCESS'' \<and> filter is_exception evs = []
           \<or> (\<exists>e. filter is_exception evs = [ExceptionRecorded e]
                 \<and> r = \<lparr>cd_customer_id = req_customer_id request,
                         cd_transaction_id = req_transaction_id request,
                         cd_analysis = ''Error: '' @ e, cd_status = ''ERROR'',
                         cd_amount = None, cd_currency = Some ''USD''\<rparr>)))
    \<and> (\<exists>r evs. RiskAnalyserAgentExecutor tm f2 risk (CustomerData cr)
               = Some (Inr \<lparr>sent = [RiskAnalysis r], yielded = [], calls = evs\<rparr>)
        \<and> length (filter is_agent_run evs) \<le> 1
        \<and> (ra_status r = ''SUCCESS'' \<and> filter is_exception evs = []
           \<or> (\<exists>e. filter is_exception evs = [ExceptionRecorded e]
                 \<and> r = \<lparr>ra_transaction_id = cd_transaction_id cr,
                         ra_customer_id = cd_customer_id cr,
                         ra_risk_analysis = ''Error: '' @ e, ra_risk_score = 0,
                         ra_risk_level = ''UNKNOWN'', ra_recommendation = ''INVESTIGATE'',
                         ra_status = ''ERROR'', ra_amount = None, ra_currency = Some ''USD'',
                         ra_model_confidence = None\<rparr>)))
    \<and> (\<exists>r evs. FraudAlertAgentExecutor tm f3 fraud (RiskAnalysis rr)
               = Some (Inr \<lparr>sent = [], yielded = [r], calls = evs\<rparr>)
        \<and> length (filter is_agent_run evs) \<le> 1
        \<and> (fa_workflow_status r = ''SUCCESS'' \<and> filter is_exception evs = []
           \<or> (\<exists>e. filter is_exception evs = [ExceptionRecorded e]
                 \<and> r = \<lparr>fa_transaction_id = ra_transaction_id rr,
                         fa_customer_id = ra_customer_id rr,
                         fa_alert_response = ''Error: '' @ e, fa_alert_created = False,
                         fa_workflow_status = ''ERROR'', fa_risk_score = ra_risk_score rr,
                         fa_risk_level = ra_risk_level rr\<rparr>)))
    \<and> (customer (customer_prompt request) = Raises e1 \<longrightarrow>
          CustomerDataAgentExecutor_handle tm None customer request =
            Inr (customer_error_response request e1,
                 [BusinessEvent ''fraud_detection.customer_data.started'',
                  AgentRun ''CustomerDataAgent'' (customer_prompt request),
                  ExceptionRecorded e1]))
    \<and> (risk (risk_prompt cr) = Raises e2 \<longrightarrow>
          RiskAnalyserAgentExecutor_handle tm None risk cr =
            Inr (risk_error_response cr e2,
                 [BusinessEvent ''fraud_detection.risk_analysis.started'',
                  AgentRun ''RiskAnalyserAgent'' (risk_prompt cr),
                  ExceptionRecorded e2]))
    \<and> (fraud (fraud_prompt rr (severity_of (ra_risk_score rr))) = Raises e3 \<longrightarrow>
          FraudAlertAgentExecutor_handle tm None fraud rr =
            Inr (fraud_error_response rr e3,
                 [BusinessEvent ''fraud_detection.fraud_alert.started'',
                  AgentRun ''FraudAlertAgent'' (fraud_prompt rr (severity_of (ra_risk_score rr))),
                  ExceptionRecorded e3]))
    \<and> CustomerDataAgentExecutor_handle tm (Some (0, x1)) customer request =
          Inr (customer_error_response request x1,
               [BusinessEvent ''fraud_detection.customer_data.started'', ExceptionRecorded x1])
    \<and> RiskAnalyserAgentExecutor_handle tm (Some (0, x2)) risk cr =
          Inr (risk_error_response cr x2,
               [BusinessEvent ''fraud_detection.risk_analysis.started'', ExceptionRecorded x2])
    \<and> FraudAlertAgentExecutor_handle tm (Some (0, x3)) fraud rr =
          Inr (fraud_error_response rr x3,
               [BusinessEvent ''fraud_detection.fraud_alert.started'', ExceptionRecorded x3])
    \<and> (customer (customer_prompt request) = Response m1 \<and> 1 \<le> k1
          \<and> k1 \<le> length (customer_calls request (customer_prompt request)) \<longrightarrow>
          CustomerDataAgentExecutor_handle tm (Some (k1, y1)) customer request =
            Inr (customer_error_response request y1,
                 BusinessEvent ''fraud_detection.customer_data.started''
                 # take k1 (customer_calls request (customer_prompt request))
                 @ [ExceptionRecorded y1]))
    \<and> (risk (risk_prompt cr) = Response m2 \<and> parse_risk_score (reply_text m2) = Inr n
          \<and> 1 \<le> k2 \<and> k2 \<le> length (risk_calls cr (risk_prompt cr) n) \<longrightarrow>
          RiskAnalyserAgentExecutor_handle tm (Some (k2, y2)) risk cr =
            Inr (risk_error_response cr y2,
                 BusinessEvent ''fraud_detection.risk_analysis.started''
                 # take k2 (risk_calls cr (risk_prompt cr) n)
                 @ [ExceptionRecorded y2]))
    \<and> (fraud (fraud_prompt rr (severity_of (ra_risk_score rr))) = Response m3 \<and> 1 \<le> k3
          \<and> k3 \<le> length (fraud_calls rr (fraud_prompt rr (severity_of (ra_risk_score rr)))
                             (reply_text m3)) \<longrightarrow>
          FraudAlertAgentExecutor_handle tm (Some (k3, y3)) fraud rr =
            Inr (fraud_error_response rr y3,
                 BusinessEvent ''fraud_detection.fraud_alert.started''
                 # take k3 (fraud_calls rr (fraud_prompt rr (severity_of (ra_risk_score rr)))
                              (reply_text m3))
                 @ [ExceptionRecorded y3]))"
proof -
  from customer_outcome[OF assms, of f1 customer request] obtain r1 evs1 where
    c: "CustomerDataAgentExecutor_handle tm f1 customer request = Inr (r1, evs1)"
       "length (filter is_agent_run evs1) \<le> 1"
       "cd_status r1 = ''SUCCESS'' \<and> filter is_exception evs1 = []
        \<or> (\<exists>e. filter is_exception evs1 = [ExceptionRecorded e]
              \<and> r1 = customer_error_response request e)"
    by blast
  have a1: "\<exists>r evs. CustomerDataAgentExecutor tm f1 customer (Request request)
               = Some (Inr \<lparr>sent = [CustomerData r], yielded = [], calls = evs\<rparr>)
        \<and> length (filter is_agent_run evs) \<le> 1
        \<and> (cd_status r = ''SUCCESS'' \<and> filter is_exception evs = []
           \<or> (\<exists>e. filter is_exception evs = [ExceptionRecorded e]
                 \<and> r = \<lparr>cd_customer_id = req_customer_id request,
                         cd_transaction_id = req_transaction_id request,
                         cd_analysis = ''Error: '' @ e, cd_status = ''ERROR'',
                         cd_amount = None, cd_currency = Some ''USD''\<rparr>))"
    using c unfolding customer_error_response_def
    by (intro exI[of _ r1] exI[of _ evs1]) (simp add: CustomerDataAgentExecutor_def)
  from risk_outcome[OF assms, of f2 risk cr] obtain r2 evs2 where
    r: "RiskAnalyserAgentExecutor_handle tm f2 risk cr = Inr (r2, evs2)"
       "length (filter is_agent_run evs2) \<le> 1"
       "ra_status r2 = ''SUCCESS'' \<and> filter is_exception evs2 = []
        \<or> (\<exists>e. filter is_exception evs2 = [ExceptionRecorded e]
              \<and> r2 = risk_error_response cr e)"
    by blast
  have a2: "\<exists>r evs. RiskAnalyserAgentExecutor tm f2 risk (CustomerData cr)
               = Some (Inr \<lparr>sent = [RiskAnalysis r], yielded = [], calls = evs\<rparr>)
        \<and> length (filter is_agent_run evs) \<le> 1
        \<and> (ra_status r = ''SUCCESS'' \<and> filter is_exception evs = []
           \<or> (\<exists>e. filter is_exception evs = [ExceptionRecorded e]
                 \<and> r = \<lparr>ra_transaction_id = cd_transaction_id cr,
                         ra_customer_id = cd_customer_id cr,
                         ra_risk_analysis = ''Error: '' @ e, ra_risk_score = 0,
                         ra_risk_level = ''UNKNOWN'', ra_recommendation = ''INVESTIGATE'',
                         ra_status = ''ERROR'', ra_amount = None, ra_currency = Some ''USD'',
                         ra_model_confidence = None\<rparr>))"
    using r unfolding risk_error_response_def
    by (intro exI[of _ r2] exI[of _ evs2]) (simp add: RiskAnalyserAgentExecutor_def)
  from fraud_outcome[OF assms, of f3 fraud rr] obtain r3 evs3 where
    f: "FraudAlertAgentExecutor_handle tm f3 fraud rr = Inr (r3, evs3)"
       "length (filter is_agent_run evs3) \<le> 1"
       "fa_workflow_status r3 = ''SUCCESS'' \<and> filter is_exception evs3 = []
        \<or> (\<exists>e. filter is_exception evs3 = [ExceptionRecorded e]
              \<and> r3 = fraud_error_response rr e)"
    by blast
  have a3: "\<exists>r evs. FraudAlertAgentExecutor tm f3 fraud (RiskAnalysis rr)
               = Some (Inr \<lparr>sent = [], yielded = [r], calls = evs\<rparr>)
        \<and> length (filter is_agent_run evs) \<le> 1
        \<and> (fa_workflow_status r = ''SUCCESS'' \<and> filter is_exception evs = []
           \<or> (\<exists>e. filter is_exception evs = [ExceptionRecorded e]
                 \<and> r = \<lparr>fa_transaction_id = ra_transaction_id rr,
                         fa_customer_id = ra_customer_id rr,
                         fa_alert_response = ''Error: '' @ e, fa_alert_created = False,
                         fa_workflow_status = ''ERROR'', fa_risk_score = ra_risk_score rr,
                         fa_risk_level = ra_risk_level rr\<rparr>))"
    using f unfolding fraud_error_response_def
    by (intro exI[of _ r3] exI[of _ evs3]) (simp add: FraudAlertAgentExecutor_def)
  note b1 = customer_causes[OF assms, of customer request e1 x1 m1 k1 y1]
  note b2 = risk_causes[OF assms, of risk cr e2 x2 m2 n k2 y2]
  note b3 = fraud_causes[OF assms, of fraud rr e3 x3 m3 k3 y3]
  from a1 a2 a3 b1 b2 b3 show ?thesis by blast
qed

theorem stage_exceptions_are_reported_witness:
  "tracer demo_telemetry = Some ''fraud_detection_workflow''
   \<and> failing_agent (customer_prompt demo_request) = Raises ''service unavailable''
   \<and> failing_agent (risk_prompt demo_customer_response) = Raises ''service unavailable''
   \<and> failing_agent (fraud_prompt blocked_risk_response (severity_of (ra_risk_score blocked_risk_response)))
       = Raises ''service unavailable''
   \<and> CustomerDataAgentExecutor demo_telemetry None failing_agent (Request demo_request) =
        Some (Inr \<lparr>sent = [CustomerData
                 \<lparr>cd_customer_id = ''CUST1002'', cd_transaction_id = ''TX1002'',
                  cd_analysis = ''Error: service unavailable'', cd_status = ''ERROR'',
                  cd_amount = None, cd_currency = Some ''USD''\<rparr>],
              yielded = [],
              calls = [BusinessEvent ''fraud_detection.customer_data.started'',
                       AgentRun ''CustomerDataAgent'' (customer_prompt demo_request),
                       ExceptionRecorded ''service unavailable'']\<rparr>)
   \<and> RiskAnalyserAgentExecutor demo_telemetry None failing_agent (CustomerData demo_customer_response) =
        Some (Inr \<lparr>sent = [RiskAnalysis
                 \<lparr>ra_transaction_id = ''TX1002'', ra_customer_id = ''CUST1002'',
                  ra_risk_analysis = ''Error: service unavailable'', ra_risk_score = 0,
                  ra_risk_level = ''UNKNOWN'', ra_recommendation = ''INVESTIGATE'',
                  ra_status = ''ERROR'', ra_amount = None, ra_currency = Some ''USD'',
                  ra_model_confidence = None\<rparr>],
              yielded = [],
              calls = [BusinessEvent ''fraud_detection.risk_analysis.started'',
                       AgentRun ''RiskAnalyserAgent'' (risk_prompt demo_customer_response),
                       ExceptionRecorded ''service unavailable'']\<rparr>)
   \<and> FraudAlertAgentExecutor demo_telemetry None failing_agent (RiskAnalysis blocked_risk_response) =
        Some (Inr \<lparr>sent = [],
              yielded = [\<lparr>fa_transaction_id = ''TX1002'', fa_customer_id = ''CUST1002'',
                          fa_alert_response = ''Error: service unavailable'', fa_alert_created = False,
                          fa_workflow_status = ''ERROR'', fa_risk_score = 80,
                          fa_risk_level = ''HIGH''\<rparr>],
              calls = [BusinessEvent ''fraud_detection.fraud_alert.started'',
                       AgentRun ''FraudAlertAgent''
                         (fraud_prompt blocked_risk_response (severity_of (ra_risk_score blocked_risk_response))),
                       ExceptionRecorded ''service unavailable'']\<rparr>)
   \<and> customer_data_agent demo_agents (customer_prompt demo_request)
       = Response [''Customer CUST1002 has 3 transactions on file'']
   \<and> (2::nat) \<le> length (customer_calls demo_request (customer_prompt demo_request))
   \<and> CustomerDataAgentExecutor_handle demo_telemetry (Some (2, ''exporter down''))
        (customer_data_agent demo_agents) demo_request =
        Inr (\<lparr>cd_customer_id = ''CUST1002'', cd_transaction_id = ''TX1002'',
              cd_analysis = ''Error: exporter down'', cd_status = ''ERROR'',
              cd_amount = None, cd_currency = Some ''USD''\<rparr>,
             [BusinessEvent ''fraud_detection.customer_data.started'',
              AgentRun ''CustomerDataAgent'' (customer_prompt demo_request),
              TransactionProcessed ''customer_data'' ''TX1002'',
              ExceptionRecorded ''exporter down''])
   \<and> risk_analyser_agent demo_agents (risk_prompt demo_customer_response)
       = Response [''Risk Score: 80/100'']
   \<and> parse_risk_score (reply_text [''Risk Score: 80/100'']) = Inr 80
   \<and> (2::nat) \<le> length (risk_calls demo_customer_response (risk_prompt demo_customer_response) 80)
   \<and> RiskAnalyserAgentExecutor_handle demo_telemetry (Some (2, ''exporter down''))
        (risk_analyser_agent demo_agents) demo_customer_response =
        Inr (\<lparr>ra_transaction_id = ''TX1002'', ra_customer_id = ''CUST1002'',
              ra_risk_analysis = ''Error: exporter down'', ra_risk_score = 0,
              ra_risk_level = ''UNKNOWN'', ra_recommendation = ''INVESTIGATE'',
              ra_status = ''ERROR'', ra_amount = None, ra_currency = Some ''USD'',
              ra_model_confidence = None\<rparr>,
             [BusinessEvent ''fraud_detection.risk_analysis.started'',
              AgentRun ''RiskAnalyserAgent'' (risk_prompt demo_customer_response),
              RiskScoreRecorded 80 ''TX1002'' ''BLOCK'',
              ExceptionRecorded ''exporter down''])
   \<and> fraud_alert_agent demo_agents
        (fraud_prompt blocked_risk_response (severity_of (ra_risk_score blocked_risk_response)))
       = Response [''Fraud Alert created for TX1002'']
   \<and> (2::nat) \<le> length (fraud_calls blocked_risk_response
          (fraud_prompt blocked_risk_response (severity_of (ra_risk_score blocked_risk_response)))
          (reply_text [''Fraud Alert created for TX1002'']))
   \<and> FraudAlertAgentExecutor_handle demo_telemetry (Some (2, ''exporter down''))
        (fraud_alert_agent demo_agents) blocked_risk_response =
        Inr (\<lparr>fa_transaction_id = ''TX1002'', fa_customer_id = ''CUST1002'',
              fa_alert_response = ''Error: exporter down'', fa_alert_created = False,
              fa_workflow_status = ''ERROR'', fa_risk_score = 80, fa_risk_level = ''HIGH''\<rparr>,
             [BusinessEvent ''fraud_detection.fraud_alert.started'',
              AgentRun ''FraudAlertAgent''
                (fraud_prompt blocked_risk_response (severity_of (ra_risk_score blocked_risk_response))),
              FraudAlertCreated ''ALERT-TX1002'' ''HIGH'' ''BLOCK'' ''TX1002'',
              ExceptionRecorded ''exporter down''])"
proof -
  let ?fp = "fraud_prompt blocked_risk_response (severity_of (ra_risk_score blocked_risk_response))"
  have t: "tracer demo_telemetry = Some ''fraud_detection_workflow''"
    by (simp add: demo_telemetry_def initialize_observability_def new_TelemetryManager_def)
  have g: "failing_agent p = Raises ''service unavailable''" for p
    by (simp add: failing_agent_def)
  have d: "customer_data_agent demo_agents p = Response [''Customer CUST1002 has 3 transactions on file'']"
    "risk_analyser_agent demo_agents p = Response [''Risk Score: 80/100'']"
    "fraud_alert_agent demo_agents p = Response [''Fraud Alert created for TX1002'']" for p
    by (simp_all add: demo_agents_def)
  have p: "parse_risk_score (reply_text [''Risk Score: 80/100'']) = Inr 80" by code_simp
  have q: "customer_error_response demo_request e =
      \<lparr>cd_customer_id = ''CUST1002'', cd_transaction_id = ''TX1002'',
       cd_analysis = ''Error: '' @ e, cd_status = ''ERROR'',
       cd_amount = None, cd_currency = Some ''USD''\<rparr>"
    "risk_error_response demo_customer_response e =
      \<lparr>ra_transaction_id = ''TX1002'', ra_customer_id = ''CUST1002'',
       ra_risk_analysis = ''Error: '' @ e, ra_risk_score = 0,
       ra_risk_level = ''UNKNOWN'', ra_recommendation = ''INVESTIGATE'',
       ra_status = ''ERROR'', ra_amount = None, ra_currency = Some ''USD'',
       ra_model_confidence = None\<rparr>"
    "fraud_error_response blocked_risk_response e =
      \<lparr>fa_transaction_id = ''TX1002'', fa_customer_id = ''CUST1002'',
       fa_alert_response = ''Error: '' @ e, fa_alert_created = False,
       fa_workflow_status = ''ERROR'', fa_risk_score = 80, fa_risk_level = ''HIGH''\<rparr>" for e
    by (simp_all add: customer_error_response_def risk_error_response_def fraud_error_response_def
        demo_request_def demo_customer_response_def blocked_risk_response_def)
  have c1: "take 2 (customer_calls demo_request (customer_prompt demo_request)) =
      [AgentRun ''CustomerDataAgent'' (customer_prompt demo_request),
       TransactionProcessed ''customer_data'' ''TX1002'']"
    "(2::nat) \<le> length (customer_calls demo_request (customer_prompt demo_request))"
    by (simp_all add: customer_calls_def demo_request_def)
  have c2: "take 2 (risk_calls demo_customer_response (risk_prompt demo_customer_response) 80) =
      [AgentRun ''RiskAnalyserAgent'' (risk_prompt demo_customer_response),
       RiskScoreRecorded 80 ''TX1002'' ''BLOCK'']"
    "(2::nat) \<le> length (risk_calls demo_customer_response (risk_prompt demo_customer_response) 80)"
    by (simp_all add: risk_calls_def Let_def demo_customer_response_def risk_level_of_def
        recommendation_of_def)
  have s: "severity_of (ra_risk_score blocked_risk_response) = ''HIGH''"
    "ra_recommendation blocked_risk_response = ''BLOCK''"
    "ra_transaction_id blocked_risk_response = ''TX1002''"
    by (simp_all add: blocked_risk_response_def severity_of_def)
  have ad: "alert_decision blocked_risk_response (reply_text [''Fraud Alert created for TX1002''])"
    by (simp add: alert_decision_def blocked_risk_response_def)
  have c3: "take 2 (fraud_calls blocked_risk_response ?fp (reply_text [''Fraud Alert created for TX1002''])) =
      [AgentRun ''FraudAlertAgent'' ?fp,
       FraudAlertCreated ''ALERT-TX1002'' ''HIGH'' ''BLOCK'' ''TX1002'']"
    "(2::nat) \<le> length (fraud_calls blocked_risk_response ?fp (reply_text [''Fraud Alert created for TX1002'']))"
    using ad by (simp_all add: fraud_calls_def Let_def s)
  note A = stage_exceptions_are_reported[OF t, where ?f1.0 = None and ?f2.0 = None and ?f3.0 = None
      and customer = failing_agent and risk = failing_agent and fraud = failing_agent
      and request = demo_request and cr = demo_customer_response and rr = blocked_risk_response
      and ?e1.0 = "''service unavailable''" and ?e2.0 = "''service unavailable''"
      and ?e3.0 = "''service unavailable''"]
  note B = stage_exceptions_are_reported[OF t,
      where customer = "customer_data_agent demo_agents" and risk = "risk_analyser_agent demo_agents"
      and fraud = "fraud_alert_agent demo_agents"
      and request = demo_request and cr = demo_customer_response and rr = blocked_risk_response
      and ?m1.0 = "[''Customer CUST1002 has 3 transactions on file'']"
      and ?m2.0 = "[''Risk Score: 80/100'']" and ?m3.0 = "[''Fraud Alert created for TX1002'']"
      and n = 80 and ?k1.0 = 2 and ?k2.0 = 2 and ?k3.0 = 2
      and ?y1.0 = "''exporter down''" and ?y2.0 = "''exporter down''" and ?y3.0 = "''exporter down''"]
  from A g have a:
    "CustomerDataAgentExecutor_handle demo_telemetry None failing_agent demo_request =
       Inr (customer_error_response demo_request ''service unavailable'',
            [BusinessEvent ''fraud_detection.customer_data.started'',
             AgentRun ''CustomerDataAgent'' (customer_prompt demo_request),
             ExceptionRecorded ''service unavailable''])"
    "RiskAnalyserAgentExecutor_handle demo_telemetry None failing_agent demo_customer_response =
       Inr (risk_error_response demo_customer_response ''service unavailable'',
            [BusinessEvent ''fraud_detection.risk_analysis.started'',
             AgentRun ''RiskAnalyserAgent'' (risk_prompt demo_customer_response),
             ExceptionRecorded ''service unavailable''])"
    "FraudAlertAgentExecutor_handle demo_telemetry None failing_agent blocked_risk_response =
       Inr (fraud_error_response blocked_risk_response ''service unavailable'',
            [BusinessEvent ''fraud_detection.fraud_alert.started'',
             AgentRun ''FraudAlertAgent'' ?fp,
             ExceptionRecorded ''service unavailable''])"
    by blast+
  from B d p c1(2) c2(2) c3(2) have b:
    "CustomerDataAgentExecutor_handle demo_telemetry (Some (2, ''exporter down''))
        (customer_data_agent demo_agents) demo_request =
       Inr (customer_error_response demo_request ''exporter down'',
            BusinessEvent ''fraud_detection.customer_data.started''
            # take 2 (customer_calls demo_request (customer_prompt demo_request))
            @ [ExceptionRecorded ''exporter down''])"
    "RiskAnalyserAgentExecutor_handle demo_telemetry (Some (2, ''exporter down''))
        (risk_analyser_agent demo_agents) demo_customer_response =
       Inr (risk_error_response demo_customer_response ''exporter down'',
            BusinessEvent ''fraud_detection.risk_analysis.started''
            # take 2 (risk_calls demo_customer_response (risk_prompt demo_customer_response) 80)
            @ [ExceptionRecorded ''exporter down''])"
    "FraudAlertAgentExecutor_handle demo_telemetry (Some (2, ''exporter down''))
        (fraud_alert_agent demo_agents) blocked_risk_response =
       Inr (fraud_error_response blocked_risk_response ''exporter down'',
            BusinessEvent ''fraud_detection.fraud_alert.started''
            # take 2 (fraud_calls blocked_risk_response ?fp (reply_text [''Fraud Alert created for TX1002'']))
            @ [ExceptionRecorded ''exporter down''])"
    by simp_all
  have w: "CustomerDataAgentExecutor demo_telemetry None failing_agent (Request demo_request) =
        Some (Inr \<lparr>sent = [CustomerData (customer_error_response demo_request ''service unavailable'')],
              yielded = [],
              calls = [BusinessEvent ''fraud_detection.customer_data.started'',
                       AgentRun ''CustomerDataAgent'' (customer_prompt demo_request),
                       ExceptionRecorded ''service unavailable'']\<rparr>)"
    "RiskAnalyserAgentExecutor demo_telemetry None failing_agent (CustomerData demo_customer_response) =
        Some (Inr \<lparr>sent = [RiskAnalysis (risk_error_response demo_customer_response ''service unavailable'')],
              yielded = [],
              calls = [BusinessEvent ''fraud_detection.risk_analysis.started'',
                       AgentRun ''RiskAnalyserAgent'' (risk_prompt demo_customer_response),
                       ExceptionRecorded ''service unavailable'']\<rparr>)"
    "FraudAlertAgentExecutor demo_telemetry None failing_agent (RiskAnalysis blocked_risk_response) =
        Some (Inr \<lparr>sent = [],
              yielded = [fraud_error_response blocked_risk_response ''service unavailable''],
              calls = [BusinessEvent ''fraud_detection.fraud_alert.started'',
                       AgentRun ''FraudAlertAgent'' ?fp,
                       ExceptionRecorded ''service unavailable'']\<rparr>)"
    by (simp_all add: CustomerDataAgentExecutor_def RiskAnalyserAgentExecutor_def
        FraudAlertAgentExecutor_def a)
  show ?thesis
    unfolding w b c1(1) c2(1) c3(1) q
    using t g d p c1(2) c2(2) c3(2) by simp
qed

theorem uncaught_stage_exception_counterexample:
  "tracer new_TelemetryManager = None
   \<and> CustomerDataAgentExecutor_handle new_TelemetryManager None (customer_data_agent demo_agents)
        demo_request = Inl AttributeError
   \<and> CustomerDataAgentExecutor new_TelemetryManager None (customer_data_agent demo_agents)
        (Request demo_request) = Some (Inl AttributeError)
   \<and> RiskAnalyserAgentExecutor_handle new_TelemetryManager None (risk_analyser_agent demo_agents)
        demo_customer_response = Inl AttributeError
   \<and> RiskAnalyserAgentExecutor new_TelemetryManager None (risk_analyser_agent demo_agents)
        (CustomerData demo_customer_response) = Some (Inl AttributeError)
   \<and> FraudAlertAgentExecutor_handle new_TelemetryManager None (fraud_alert_agent demo_agents)
        blocked_risk_response = Inl AttributeError
   \<and> FraudAlertAgentExecutor new_TelemetryManager None (fraud_alert_agent demo_agents)
        (RiskAnalysis blocked_risk_response) = Some (Inl AttributeError)"
  by (simp add: CustomerDataAgentExecutor_def RiskAnalyserAgentExecutor_def
      FraudAlertAgentExecutor_def CustomerDataAgentExecutor_handle_def
      RiskAnalyserAgentExecutor_handle_def FraudAlertAgentExecutor_handle_def
      create_agent_span_def new_TelemetryManager_def)

subsection \<open>The workflow graph\<close>

lemma fraud_detection_workflow_built:
  "fraud_detection_workflow tm fs ags =
     \<lparr>executors =
        [(''CustomerDataAgent'',
          CustomerDataAgentExecutor tm (customer_data_fault fs) (customer_data_agent ags)),
         (''RiskAnalyserAgent'',
          RiskAnalyserAgentExecutor tm (risk_analyser_fault fs) (risk_analyser_agent ags)),
         (''FraudAlertAgent'',
          FraudAlertAgentExecutor tm (fraud_alert_fault fs) (fraud_alert_agent ags))],
      edges = [(''CustomerDataAgent'', ''RiskAnalyserAgent''), (''RiskAnalyserAgent'', ''FraudAlertAgent'')],
      start_executor = Some ''CustomerDataAgent''\<rparr>"
  by (simp add: fraud_detection_workflow_def WorkflowBuilder_def register_executor_def
      add_edge_def set_start_executor_def)

lemma deliver_customer:
  "deliver (fraud_detection_workflow tm fs ags) (''CustomerDataAgent'', Request request) =
     (case CustomerDataAgentExecutor_handle tm (customer_data_fault fs) (customer_data_agent ags)
             request of
        Inl err \<Rightarrow> Inl err
      | Inr (r, evs) \<Rightarrow> Inr ([(''RiskAnalyserAgent'', CustomerData r)], [], evs))"
  by (simp add: fraud_detection_workflow_built deliver_def CustomerDataAgentExecutor_def
      split: sum.splits prod.splits)

lemma deliver_risk:
  "deliver (fraud_detection_workflow tm fs ags) (''RiskAnalyserAgent'', CustomerData cr) =
     (case RiskAnalyserAgentExecutor_handle tm (risk_analyser_fault fs) (risk_analyser_agent ags)
             cr of
        Inl err \<Rightarrow> Inl err
      | Inr (r, evs) \<Rightarrow> Inr ([(''FraudAlertAgent'', RiskAnalysis r)], [], evs))"
  by (simp add: fraud_detection_workflow_built deliver_def RiskAnalyserAgentExecutor_def
      split: sum.splits prod.splits)

lemma deliver_fraud:
  "deliver (fraud_detection_workflow tm fs ags) (''FraudAlertAgent'', RiskAnalysis rr) =
     (case FraudAlertAgentExecutor_handle tm (fraud_alert_fault fs) (fraud_alert_agent ags) rr of
        Inl err \<Rightarrow> Inl err
      | Inr (r, evs) \<Rightarrow> Inr ([], [r], evs))"
  by (simp add: fraud_detection_workflow_built deliver_def FraudAlertAgentExecutor_def
      split: sum.splits prod.splits)

lemma run_stream_chain:
  "run_stream (Suc (Suc (Suc k))) (fraud_detection_workflow tm fs ags) request =
     Some (case sequential_pipeline tm fs ags request of
             Inl err \<Rightarrow> Inl err
           | Inr (out, evs) \<Rightarrow> Inr ([out], evs))"
proof -
  have s: "start_executor (fraud_detection_workflow tm fs ags) = Some ''CustomerDataAgent''"
    by (simp add: fraud_detection_workflow_built)
  show ?thesis
    unfolding run_stream_def s
    by (simp add: deliver_customer deliver_risk deliver_fraud sequential_pipeline_def
        split: sum.splits prod.splits)
qed

lemma run_stream_raises:
  assumes "tracer tm = None"
  shows "run_stream (Suc k) (fraud_detection_workflow tm fs ags) request = Some (Inl AttributeError)"
proof -
  have s: "start_executor (fraud_detection_workflow tm fs ags) = Some ''CustomerDataAgent''"
    by (simp add: fraud_detection_workflow_built)
  have h: "CustomerDataAgentExecutor_handle tm (customer_data_fault fs) (customer_data_agent ags)
             request = Inl AttributeError"
    using assms by (simp add: CustomerDataAgentExecutor_handle_def create_agent_span_def)
  show ?thesis
    unfolding run_stream_def s by (simp add: deliver_customer h)
qed

lemma sequential_pipeline_returns:
  assumes "tracer tm = Some t"
  shows "\<exists>out evs. sequential_pipeline tm fs ags request = Inr (out, evs)"
proof -
  from customer_outcome[OF assms] obtain r1 evs1 where
    a: "CustomerDataAgentExecutor_handle tm (customer_data_fault fs) (customer_data_agent ags)
          request = Inr (r1, evs1)"
    by blast
  from risk_outcome[OF assms] obtain r2 evs2 where
    b: "RiskAnalyserAgentExecutor_handle tm (risk_analyser_fault fs) (risk_analyser_agent ags)
          r1 = Inr (r2, evs2)"
    by blast
  from fraud_outcome[OF assms] obtain r3 evs3 where
    c: "FraudAlertAgentExecutor_handle tm (fraud_alert_fault fs) (fraud_alert_agent ags)
          r2 = Inr (r3, evs3)"
    by blast
  show ?thesis by (simp add: sequential_pipeline_def a b c)
qed

text \<open>
  C2.  The fraud-detection workflow is a fixed chain of three nodes: it has exactly the
  executors CustomerDataAgent, RiskAnalyserAgent and FraudAlertAgent, exactly the edges
  CustomerDataAgent -> RiskAnalyserAgent and RiskAnalyserAgent -> FraudAlertAgent, and the
  start executor CustomerDataAgent.  For every request, a run that is allowed at least
  three rounds ends, and the result of \<open>run_fraud_detection_workflow\<close> is that of the
  three stage handlers applied one after the other to the request, with the calls they
  make in that order and no branching: the output of the last handler when the three
  return, which they do when the telemetry manager is initialised, and the exception
  of the first handler that raises otherwise, which with an uninitialised telemetry
  manager is the AttributeError of the first stage.
\<close>

theorem workflow_is_sequential_chain:
  "map fst (executors (fraud_detection_workflow tm fs ags)) =
      [''CustomerDataAgent'', ''RiskAnalyserAgent'', ''FraudAlertAgent'']
   \<and> edges (fraud_detection_workflow tm fs ags) =
      [(''CustomerDataAgent'', ''RiskAnalyserAgent''), (''RiskAnalyserAgent'', ''FraudAlertAgent'')]
   \<and> start_executor (fraud_detection_workflow tm fs ags) = Some ''CustomerDataAgent''
   \<and> (3 \<le> fuel \<longrightarrow>
        run_fraud_detection_workflow fuel tm fs ags transaction_id customer_id amount currency =
          Some (case sequential_pipeline tm fs ags
                       \<lparr>req_transaction_id = transaction_id, req_customer_id = customer_id,
                        req_amount = amount, req_currency = currency\<rparr> of
                  Inl err \<Rightarrow> Inl err
                | Inr (out, evs) \<Rightarrow> Inr (Some out, evs)))
   \<and> (3 \<le> fuel \<and> tracer tm = Some t \<longrightarrow>
        (\<exists>out evs. run_fraud_detection_workflow fuel tm fs ags transaction_id customer_id amount
                     currency = Some (Inr (Some out, evs))))
   \<and> (1 \<le> fuel \<and> tracer tm = None \<longrightarrow>
        run_fraud_detection_workflow fuel tm fs ags transaction_id customer_id amount currency =
          Some (Inl AttributeError))"
proof -
  let ?request = "\<lparr>req_transaction_id = transaction_id, req_customer_id = customer_id,
                    req_amount = amount, req_currency = currency\<rparr>"
  have a: "run_fraud_detection_workflow fuel tm fs ags transaction_id customer_id amount currency =
          Some (case sequential_pipeline tm fs ags ?request of
                  Inl err \<Rightarrow> Inl err
                | Inr (out, evs) \<Rightarrow> Inr (Some out, evs))"
    if "3 \<le> fuel"
  proof -
    from that obtain k where k: "fuel = Suc (Suc (Suc k))"
      by (metis add_Suc le_Suc_ex numeral_3_eq_3 plus_nat.add_0)
    show ?thesis
      unfolding k run_fraud_detection_workflow_def Let_def run_stream_chain
      by (simp split: sum.splits prod.splits)
  qed
  have b: "\<exists>out evs. run_fraud_detection_workflow fuel tm fs ags transaction_id customer_id amount
                     currency = Some (Inr (Some out, evs))"
    if "3 \<le> fuel" "tracer tm = Some t"
  proof -
    from sequential_pipeline_returns[OF that(2)] obtain out evs where
      "sequential_pipeline tm fs ags ?request = Inr (out, evs)" by blast
    with a[OF that(1)] show ?thesis by simp
  qed
  have c: "run_fraud_detection_workflow fuel tm fs ags transaction_id customer_id amount currency =
          Some (Inl AttributeError)"
    if "1 \<le> fuel" "tracer tm = None"
  proof -
    from that(1) obtain k where k: "fuel = Suc k" by (cases fuel) simp_all
    show ?thesis
      unfolding k run_fraud_detection_workflow_def Let_def run_stream_raises[OF that(2)] by simp
  qed
  from a b c show ?thesis by (simp add: fraud_detection_workflow_built)
qed

theorem workflow_is_sequential_chain_witness:
  "(3::nat) \<le> 100
   \<and> tracer demo_telemetry = Some ''fraud_detection_workflow''
   \<and> sequential_pipeline demo_telemetry no_faults demo_agents demo_request
       = Inr (blocked_alert_response, demo_customer_calls @ blocked_risk_calls @ blocked_alert_calls)
   \<and> run_fraud_detection_workflow 100 demo_telemetry no_faults demo_agents
        ''TX1002'' ''CUST1002'' (Some 15000) (Some ''INR'') =
       Some (Inr (Some \<lparr>fa_transaction_id = ''TX1002'', fa_customer_id = ''CUST1002'',
                        fa_alert_response = ''Fraud Alert created for TX1002'', fa_alert_created = True,
                        fa_workflow_status = ''SUCCESS'', fa_risk_score = 80, fa_risk_level = ''HIGH''\<rparr>,
                  demo_customer_calls @ blocked_risk_calls @ blocked_alert_calls))
   \<and> tracer new_TelemetryManager = None
   \<and> sequential_pipeline new_TelemetryManager no_faults demo_agents demo_request = Inl AttributeError
   \<and> run_fraud_detection_workflow 100 new_TelemetryManager no_faults demo_agents
        ''TX1002'' ''CUST1002'' (Some 15000) (Some ''INR'') = Some (Inl AttributeError)"
proof -
  have h: "(3::nat) \<le> 100" "(1::nat) \<le> 100" by simp_all
  have t: "tracer demo_telemetry = Some ''fraud_detection_workflow''"
    by (simp add: demo_telemetry_def initialize_observability_def new_TelemetryManager_def)
  have n: "tracer new_TelemetryManager = None" by (simp add: new_TelemetryManager_def)
  have v: "sequential_pipeline demo_telemetry no_faults demo_agents demo_request
       = Inr (blocked_alert_response, demo_customer_calls @ blocked_risk_calls @ blocked_alert_calls)"
    by code_simp
  have u: "sequential_pipeline new_TelemetryManager no_faults demo_agents demo_request
       = Inl AttributeError"
    by code_simp
  have d: "\<lparr>req_transaction_id = ''TX1002'', req_customer_id = ''CUST1002'',
           req_amount = Some 15000, req_currency = Some ''INR''\<rparr> = demo_request"
    by (simp add: demo_request_def)
  from workflow_is_sequential_chain[of demo_telemetry no_faults demo_agents 100 "''TX1002''"
      "''CUST1002''" "Some 15000" "Some ''INR''" "''fraud_detection_workflow''"]
    workflow_is_sequential_chain[of new_TelemetryManager no_faults demo_agents 100 "''TX1002''"
      "''CUST1002''" "Some 15000" "Some ''INR''"]
    h t n
  show ?thesis
    unfolding d v u by (simp add: blocked_alert_response_def)
qed

subsection \<open>analyze_transaction_risk\<close>

text \<open>
  C5.  Without a transactions database, \<open>analyze_transaction_risk\<close> returns (it has no
  raising path) a text that begins with "Risk Score: <score>/100", where the score is
  exactly 30 for a customer country among NG, IR, RU, KP, plus 25 for an amount of at least
  10000, plus 20 for an account age of at most 30 days.  The next line reports the level:
  High exactly for a score of at least 75, which needs all three factors and is then the
  score 75; Medium for a score of at least 40 below 75; Low otherwise.
\<close>

theorem analyze_transaction_risk_without_database:
  "(\<exists>factors. analyze_transaction_risk None fmt transaction_id customer_country amount_usd account_age_days =
        ''Risk Score: '' @ str_int (factor_sum customer_country amount_usd account_age_days) @ ''/100'' @ nl @
        ''Risk Level: '' @
          (if factor_sum customer_country amount_usd account_age_days \<ge> 75 then ''High''
           else if factor_sum customer_country amount_usd account_age_days \<ge> 40 then ''Medium''
           else ''Low'') @ nl @ factors)
   \<and> starts_with (''Risk Score: '' @ str_int (factor_sum customer_country amount_usd account_age_days) @ ''/100'')
        (analyze_transaction_risk None fmt transaction_id customer_country amount_usd account_age_days)
   \<and> (factor_sum customer_country amount_usd account_age_days \<ge> 75 \<longleftrightarrow>
        customer_country \<in> {''NG'', ''IR'', ''RU'', ''KP''} \<and> amount_usd \<ge> 10000 \<and> account_age_days \<le> 30)
   \<and> factor_sum customer_country amount_usd account_age_days
        \<in> {0, 20, 25, 30, 45, 50, 55, 75}"
proof -
  let ?s = "factor_sum customer_country amount_usd account_age_days"
  let ?r = "analyze_transaction_risk None fmt transaction_id customer_country amount_usd account_age_days"
  let ?head = "''Risk Score: '' @ str_int ?s @ ''/100''"
  have c: "customer_country \<in> set high_risk_countries \<longleftrightarrow>
      customer_country = ''NG'' \<or> customer_country = ''IR'' \<or> customer_country = ''RU''
      \<or> customer_country = ''KP''"
    by (simp add: high_risk_countries_def)
  have e: "\<exists>factors. ?r = ''Risk Score: '' @ str_int ?s @ ''/100'' @ nl @ ''Risk Level: '' @
          (if ?s \<ge> 75 then ''High'' else if ?s \<ge> 40 then ''Medium'' else ''Low'') @ nl @ factors"
    unfolding analyze_transaction_risk_def device_factor_def factor_sum_def c
      high_amount_threshold_usd_def suspicious_account_age_days_def
    by (simp add: Let_def)
  then obtain factors where f: "?r = ?head @ (nl @ ''Risk Level: '' @
          (if ?s \<ge> 75 then ''High'' else if ?s \<ge> 40 then ''Medium'' else ''Low'') @ nl @ factors)"
    by auto
  have p: "starts_with ?head ?r"
    unfolding starts_with_iff using f by blast
  have t: "?s \<ge> 75 \<longleftrightarrow>
      customer_country \<in> {''NG'', ''IR'', ''RU'', ''KP''} \<and> amount_usd \<ge> 10000 \<and> account_age_days \<le> 30"
    by (simp add: factor_sum_def)
  have v: "?s \<in> {0, 20, 25, 30, 45, 50, 55, 75}"
    by (simp add: factor_sum_def)
  show ?thesis by (intro conjI) (rule e, rule p, rule t, rule v)
qed

theorem analyze_transaction_risk_without_database_witness:
  "starts_with ''Risk Score: 75/100''
     (analyze_transaction_risk None (\<lambda>x. ''12000.0'') ''TX1'' ''NG'' 12000 5)
   \<and> starts_with ''Risk Score: 20/100''
     (analyze_transaction_risk None (\<lambda>x. ''10.0'') ''TX2'' ''US'' 10 30)"
proof -
  have a: "str_int (factor_sum ''NG'' 12000 5) = ''75''" by code_simp
  have b: "str_int (factor_sum ''US'' 10 30) = ''20''" by code_simp
  from analyze_transaction_risk_without_database[of "\<lambda>x. ''12000.0''" "''TX1''" "''NG''" 12000 5]
    analyze_transaction_risk_without_database[of "\<lambda>x. ''10.0''" "''TX2''" "''US''" 10 30]
  show ?thesis unfolding a b by simp
qed

subsection \<open>create_fraud_alert\<close>

text \<open>
  C7.  \<open>create_fraud_alert\<close> always returns a text (it has no raising path).  It checks
  the severity, then the status, then the decision action: at the first of them that is
  not one of the allowed values it returns the matching "Invalid ..." message, builds no
  alert document and leaves the stored alerts as they were.  When all three are allowed
  it builds the document, whose id is ALERT-<transaction_id>, and the text it returns is
  the confirmation that starts with that id.
\<close>

theorem create_fraud_alert_validates_in_order:
  "(severity \<notin> {''LOW'', ''MEDIUM'', ''HIGH'', ''CRITICAL''} \<longrightarrow>
      create_fraud_alert alerts_container upsert_raises dotenv_now
        transaction_id customer_id risk_score severity status decision_action reason =
      \<lparr>returned = ''Invalid severity: '' @ severity @ ''. Must be one of '' @ repr_list SEVERITY_LEVELS,
       document = None, stored = alerts_container\<rparr>)
   \<and> (severity \<in> {''LOW'', ''MEDIUM'', ''HIGH'', ''CRITICAL''}
       \<and> status \<notin> {''OPEN'', ''INVESTIGATING'', ''RESOLVED'', ''FALSE_POSITIVE''} \<longrightarrow>
      create_fraud_alert alerts_container upsert_raises dotenv_now
        transaction_id customer_id risk_score severity status decision_action reason =
      \<lparr>returned = ''Invalid status: '' @ status @ ''. Must be one of '' @ repr_list STATUS_VALUES,
       document = None, stored = alerts_container\<rparr>)
   \<and> (severity \<in> {''LOW'', ''MEDIUM'', ''HIGH'', ''CRITICAL''}
       \<and> status \<in> {''OPEN'', ''INVESTIGATING'', ''RESOLVED'', ''FALSE_POSITIVE''}
       \<and> decision_action \<notin> {''ALLOW'', ''BLOCK'', ''MONITOR'', ''INVESTIGATE''} \<longrightarrow>
      create_fraud_alert alerts_container upsert_raises dotenv_now
        transaction_id customer_id risk_score severity status decision_action reason =
      \<lparr>returned = ''Invalid decision_action: '' @ decision_action @ ''. Must be one of ''
                    @ repr_list DECISION_ACTIONS,
       document = None, stored = alerts_container\<rparr>)
   \<and> (severity \<in> {''LOW'', ''MEDIUM'', ''HIGH'', ''CRITICAL''}
       \<and> status \<in> {''OPEN'', ''INVESTIGATING'', ''RESOLVED'', ''FALSE_POSITIVE''}
       \<and> decision_action \<in> {''ALLOW'', ''BLOCK'', ''MONITOR'', ''INVESTIGATE''} \<longrightarrow>
      starts_with (check_mark @ '' Fraud Alert Created:'' @ nl @ ''Alert ID: ALERT-'' @ transaction_id @ nl)
        (returned (create_fraud_alert alerts_container upsert_raises dotenv_now
           transaction_id customer_id risk_score severity status decision_action reason))
      \<and> map_option alert_id (document (create_fraud_alert alerts_container upsert_raises dotenv_now
           transaction_id customer_id risk_score severity status decision_action reason))
          = Some (''ALERT-'' @ transaction_id))"
proof -
  have s: "severity \<in> set SEVERITY_LEVELS \<longleftrightarrow> severity \<in> {''LOW'', ''MEDIUM'', ''HIGH'', ''CRITICAL''}"
    by (simp add: SEVERITY_LEVELS_def)
  have t: "status \<in> set STATUS_VALUES \<longleftrightarrow>
      status \<in> {''OPEN'', ''INVESTIGATING'', ''RESOLVED'', ''FALSE_POSITIVE''}"
    by (simp add: STATUS_VALUES_def)
  have d: "decision_action \<in> set DECISION_ACTIONS \<longleftrightarrow>
      decision_action \<in> {''ALLOW'', ''BLOCK'', ''MONITOR'', ''INVESTIGATE''}"
    by (simp add: DECISION_ACTIONS_def)
  show ?thesis
    unfolding s[symmetric] t[symmetric] d[symmetric]
    by (simp add: create_fraud_alert_def Let_def starts_with_iff)
qed

theorem create_fraud_alert_validates_in_order_witness:
  "create_fraud_alert (Some []) (\<lambda>a. None) None
     ''TX1002'' ''CUST1002'' 80 ''SEVERE'' ''CLOSED'' ''BLOCK'' ''velocity'' =
     \<lparr>returned = ''Invalid severity: SEVERE. Must be one of '' @ repr_list SEVERITY_LEVELS,
      document = None, stored = Some []\<rparr>
   \<and> create_fraud_alert (Some []) (\<lambda>a. None) None
     ''TX1002'' ''CUST1002'' 80 ''HIGH'' ''CLOSED'' ''BLOCK'' ''velocity'' =
     \<lparr>returned = ''Invalid status: CLOSED. Must be one of '' @ repr_list STATUS_VALUES,
      document = None, stored = Some []\<rparr>
   \<and> map_option alert_id (document (create_fraud_alert (Some []) (\<lambda>a. None) None
     ''TX1002'' ''CUST1002'' 80 ''HIGH'' ''OPEN'' ''BLOCK'' ''velocity'')) = Some ''ALERT-TX1002''"
proof -
  from create_fraud_alert_validates_in_order[of "''SEVERE''" "Some []" "\<lambda>a. None" None
      "''TX1002''" "''CUST1002''" 80 "''CLOSED''" "''BLOCK''" "''velocity''"]
    create_fraud_alert_validates_in_order[of "''HIGH''" "Some []" "\<lambda>a. None" None
      "''TX1002''" "''CUST1002''" 80 "''CLOSED''" "''BLOCK''" "''velocity''"]
    create_fraud_alert_validates_in_order[of "''HIGH''" "Some []" "\<lambda>a. None" None
      "''TX1002''" "''CUST1002''" 80 "''OPEN''" "''BLOCK''" "''velocity''"]
  show ?thesis by simp
qed

subsection \<open>Decimal strings\<close>

lemma digit_char_inj: "a < 10 \<Longrightarrow> b < 10 \<Longrightarrow> digit_char a = digit_char b \<Longrightarrow> a = b"
proof -
  assume a: "a < 10" and b: "b < 10" and e: "digit_char a = digit_char b"
  from e have "(of_char (char_of (48 + a)) :: nat) = of_char (char_of (48 + b))"
    by (simp add: digit_char_def)
  then have "(48 + a) mod 256 = (48 + b) mod 256" by simp
  with a b show ?thesis by simp
qed

lemma str_nat_nonempty: "str_nat n \<noteq> []"
  by (subst str_nat.simps) simp

lemma str_nat_length_one: "length (str_nat n) = 1 \<longleftrightarrow> n < 10"
proof
  assume l: "length (str_nat n) = 1"
  show "n < 10"
  proof (rule ccontr)
    assume "\<not> n < 10"
    then have "str_nat n = str_nat (n div 10) @ [digit_char (n mod 10)]"
      by (subst str_nat.simps) simp
    with l have "str_nat (n div 10) = []" by simp
    with str_nat_nonempty show False by blast
  qed
next
  assume "n < 10"
  then show "length (str_nat n) = 1" by (subst str_nat.simps) simp
qed

lemma str_nat_inj: "str_nat n = str_nat m \<Longrightarrow> n = m"
proof (induction n arbitrary: m rule: str_nat.induct)
  case (1 n)
  show ?case
  proof (cases "n < 10")
    case True
    with str_nat_length_one[of n] "1.prems" have "length (str_nat m) = 1" by simp
    with str_nat_length_one[of m] have m: "m < 10" by simp
    from True have "str_nat n = [digit_char n]" by (subst str_nat.simps) simp
    moreover from m have "str_nat m = [digit_char m]" by (subst str_nat.simps) simp
    ultimately have "digit_char n = digit_char m" using "1.prems" by simp
    with True m show ?thesis by (rule digit_char_inj)
  next
    case False
    with str_nat_length_one[of n] "1.prems" have "length (str_nat m) \<noteq> 1" by simp
    with str_nat_length_one[of m] have m: "\<not> m < 10" by simp
    from False have "str_nat n = str_nat (n div 10) @ [digit_char (n mod 10)]"
      by (subst str_nat.simps) simp
    moreover from m have "str_nat m = str_nat (m div 10) @ [digit_char (m mod 10)]"
      by (subst str_nat.simps) simp
    ultimately have e: "str_nat (n div 10) = str_nat (m div 10)"
      "digit_char (n mod 10) = digit_char (m mod 10)" using "1.prems" by simp_all
    from "1.IH"[OF False e(1)] have "n div 10 = m div 10" .
    moreover from e(2) have "n mod 10 = m mod 10" by (intro digit_char_inj) simp_all
    ultimately show ?thesis by (metis div_mult_mod_eq)
  qed
qed

lemma str_int_of_nat_inj: "str_int (int a) = str_int (int b) \<Longrightarrow> a = b"
  by (simp add: str_int_def str_nat_inj)

subsection \<open>The prepared batch\<close>

lemma length_AVAILABLE_TRANSACTIONS: "length AVAILABLE_TRANSACTIONS = 17"
  by (simp add: AVAILABLE_TRANSACTIONS_def)

lemma seed_ids_distinct: "distinct (map tx_transaction_id AVAILABLE_TRANSACTIONS)"
  by (simp add: AVAILABLE_TRANSACTIONS_def mk_transaction_def)

lemma seed_ids_length: "\<forall>t \<in> set AVAILABLE_TRANSACTIONS. length (tx_transaction_id t) = 6"
  by (simp add: AVAILABLE_TRANSACTIONS_def mk_transaction_def)

lemma seed_amounts_positive: "\<forall>t \<in> set AVAILABLE_TRANSACTIONS. 0 < tx_amount t"
  by (simp add: AVAILABLE_TRANSACTIONS_def mk_transaction_def)

lemma prepare_step_appends:
  assumes "length h = 17 + k" and "h ! (k mod 17) = AVAILABLE_TRANSACTIONS ! (k mod 17)"
  shows "prepare_step k (h, ts) = (h @ [expected_transaction k], ts @ [17 + k])"
proof (cases "17 \<le> k")
  case True
  with assms show ?thesis
    by (simp add: prepare_step_def dict_copy_def set_transaction_id_def Let_def nth_append
        list_update_append length_AVAILABLE_TRANSACTIONS expected_transaction_def)
next
  case False
  then have "k mod 17 = k" by simp
  with assms False show ?thesis
    by (simp add: prepare_step_def dict_copy_def set_transaction_id_def Let_def nth_append
        list_update_append length_AVAILABLE_TRANSACTIONS expected_transaction_def)
qed

lemma prepare_closed_form:
  "fold prepare_step [0..<k] (module_heap, []) =
     (AVAILABLE_TRANSACTIONS @ map expected_transaction [0..<k], [17..<17 + k])"
proof (induction k)
  case 0
  show ?case by (simp add: module_heap_def)
next
  case (Suc k)
  let ?h = "AVAILABLE_TRANSACTIONS @ map expected_transaction [0..<k]"
  have m: "k mod 17 < length AVAILABLE_TRANSACTIONS"
    by (simp add: length_AVAILABLE_TRANSACTIONS)
  have src: "?h ! (k mod 17) = AVAILABLE_TRANSACTIONS ! (k mod 17)"
    using m by (simp add: nth_append)
  have len: "length ?h = 17 + k" by (simp add: length_AVAILABLE_TRANSACTIONS)
  have u: "[17..<17 + Suc k] = [17..<17 + k] @ [17 + k]"
    using upt_Suc_append[of 17 "17 + k"] by simp
  have e: "map expected_transaction [0..<Suc k] = map expected_transaction [0..<k] @ [expected_transaction k]"
    by simp
  have "fold prepare_step [0..<Suc k] (module_heap, [])
      = prepare_step k (fold prepare_step [0..<k] (module_heap, []))" by simp
  also have "\<dots> = prepare_step k (?h, [17..<17 + k])" by (simp only: Suc.IH)
  also have "\<dots> = (?h @ [expected_transaction k], [17..<17 + k] @ [17 + k])"
    by (rule prepare_step_appends[OF len src])
  finally show ?case unfolding u e by simp
qed

lemma expected_id:
  "tx_transaction_id (expected_transaction i) =
     tx_transaction_id (AVAILABLE_TRANSACTIONS ! (i mod 17))
     @ (if i \<ge> 17 then ''-'' @ str_int (int (i div 17)) else [])"
  by (simp add: expected_transaction_def)

lemma expected_id_inj:
  assumes "tx_transaction_id (expected_transaction i) = tx_transaction_id (expected_transaction j)"
  shows "i = j"
proof -
  let ?b = "\<lambda>i. tx_transaction_id (AVAILABLE_TRANSACTIONS ! (i mod 17))"
  let ?s = "\<lambda>i::nat. if i \<ge> 17 then ''-'' @ str_int (int (i div 17)) else []"
  have in_set: "AVAILABLE_TRANSACTIONS ! (k mod 17) \<in> set AVAILABLE_TRANSACTIONS" for k
    by (simp add: length_AVAILABLE_TRANSACTIONS)
  have l: "length (?b k) = 6" for k
    using seed_ids_length in_set by blast
  from assms have "?b i @ ?s i = ?b j @ ?s j" by (simp only: expected_id)
  with l[of i] l[of j] have b: "?b i = ?b j" and s: "?s i = ?s j" by simp_all
  from b nth_eq_iff_index_eq[OF seed_ids_distinct, of "i mod 17" "j mod 17"]
  have md: "i mod 17 = j mod 17"
    by (simp add: length_AVAILABLE_TRANSACTIONS)
  show ?thesis
  proof (cases "i \<ge> 17")
    case True
    with s have j: "j \<ge> 17" by (auto split: if_splits)
    with True s have "str_int (int (i div 17)) = str_int (int (j div 17))" by simp
    then have "i div 17 = j div 17" by (rule str_int_of_nat_inj)
    with md show ?thesis by (metis div_mult_mod_eq)
  next
    case False
    with s have "\<not> j \<ge> 17" by (auto split: if_splits)
    with False md show ?thesis by simp
  qed
qed

lemma expected_ids_distinct: "distinct (map (\<lambda>i. tx_transaction_id (expected_transaction i)) [0..<k])"
  by (simp add: distinct_map inj_on_def expected_id_inj)

lemma nth_prepared:
  assumes "r \<in> set [17..<17 + k]"
  shows "(AVAILABLE_TRANSACTIONS @ map expected_transaction [0..<k]) ! r = expected_transaction (r - 17)"
proof -
  from assms have r: "17 \<le> r" "r - 17 < k" by auto
  then show ?thesis by (simp add: nth_append length_AVAILABLE_TRANSACTIONS)
qed

lemma prepared_values:
  "map (\<lambda>r. (AVAILABLE_TRANSACTIONS @ map expected_transaction [0..<k]) ! r) [17..<17 + k]
     = map expected_transaction [0..<k]"
proof -
  have "map (\<lambda>r. (AVAILABLE_TRANSACTIONS @ map expected_transaction [0..<k]) ! r) [17..<17 + k]
      = map (\<lambda>r. expected_transaction (r - 17)) [17..<17 + k]"
    by (rule map_cong[OF refl]) (rule nth_prepared)
  also have "\<dots> = map expected_transaction (map (\<lambda>r. r - 17) [17..<17 + k])" by simp
  also have "map (\<lambda>r. r - 17) [17..<17 + k] = [0..<k]"
  proof -
    have "[17..<17 + k] = map (\<lambda>i. i + 17) [0..<k]"
      by (simp add: map_add_upt add.commute)
    then show ?thesis by (simp add: comp_def)
  qed
  finally show ?thesis .
qed

text \<open>
  C9.  For every number n of transactions, n at least 1, the batch prepared by
  \<open>run_batch_simulation\<close> has exactly n transactions; before any shuffle the i-th of them
  (counting from 0) is a new dictionary holding the items of entry i mod 17 of
  \<open>AVAILABLE_TRANSACTIONS\<close>, its transaction id suffixed by "-" and i div 17 when i is at
  least 17.  The transaction ids of the batch are pairwise distinct, and the 17 seed
  dictionaries are left as they were: the batch refers to new dictionaries only.
\<close>

theorem prepared_batch:
  assumes "1 \<le> n"
  shows "case prepare_transactions n of (h, transactions) \<Rightarrow>
           int (length transactions) = n
         \<and> map (\<lambda>r. h ! r) transactions = map expected_transaction [0..<nat n]
         \<and> distinct (map (\<lambda>r. tx_transaction_id (h ! r)) transactions)
         \<and> take 17 h = AVAILABLE_TRANSACTIONS
         \<and> distinct transactions
         \<and> (\<forall>r \<in> set transactions. 17 \<le> r \<and> r < length h)"
proof -
  let ?k = "nat n"
  let ?h = "AVAILABLE_TRANSACTIONS @ map expected_transaction [0..<?k]"
  have p: "prepare_transactions n = (?h, [17..<17 + ?k])"
    by (simp add: prepare_transactions_def prepare_closed_form)
  have a: "int (length [17..<17 + ?k]) = n" using assms by simp
  have b: "map (\<lambda>r. ?h ! r) [17..<17 + ?k] = map expected_transaction [0..<?k]"
    by (rule prepared_values)
  have "map (\<lambda>r. tx_transaction_id (?h ! r)) [17..<17 + ?k]
      = map tx_transaction_id (map (\<lambda>r. ?h ! r) [17..<17 + ?k])" by simp
  also have "\<dots> = map (\<lambda>i. tx_transaction_id (expected_transaction i)) [0..<?k]"
    unfolding b by simp
  finally have c: "distinct (map (\<lambda>r. tx_transaction_id (?h ! r)) [17..<17 + ?k])"
    using expected_ids_distinct by simp
  have d: "take 17 ?h = AVAILABLE_TRANSACTIONS"
    by (simp add: length_AVAILABLE_TRANSACTIONS)
  have e: "\<forall>r \<in> set [17..<17 + ?k]. 17 \<le> r \<and> r < length ?h"
    by (simp add: length_AVAILABLE_TRANSACTIONS)
  show ?thesis unfolding p using a b c d e by simp
qed

theorem prepared_batch_witness:
  "(1::int) \<le> 19
   \<and> (case prepare_transactions 19 of (h, transactions) \<Rightarrow>
        int (length transactions) = 19
      \<and> tx_transaction_id (h ! (transactions ! 0)) = ''TX1001''
      \<and> tx_transaction_id (h ! (transactions ! 17)) = ''TX1001-1''
      \<and> tx_transaction_id (h ! (transactions ! 18)) = ''TX1002-1''
      \<and> tx_transaction_id (h ! 0) = ''TX1001''
      \<and> distinct (map (\<lambda>r. tx_transaction_id (h ! r)) transactions))"
proof -
  have h: "(1::int) \<le> 19" by simp
  have v: "map (\<lambda>i. tx_transaction_id (expected_transaction i)) [0, 17, 18]
      = [''TX1001'', ''TX1001-1'', ''TX1002-1'']" by code_simp
  have z: "tx_transaction_id (AVAILABLE_TRANSACTIONS ! 0) = ''TX1001''" by code_simp
  obtain hp ts where p: "prepare_transactions 19 = (hp, ts)" by (cases "prepare_transactions 19")
  from prepared_batch[OF h] p have f:
    "int (length ts) = 19" "map (\<lambda>r. hp ! r) ts = map expected_transaction [0..<19]"
    "distinct (map (\<lambda>r. tx_transaction_id (hp ! r)) ts)" "take 17 hp = AVAILABLE_TRANSACTIONS"
    by simp_all
  from f(1) have len: "length ts = 19" by simp
  have n: "hp ! (ts ! i) = expected_transaction i" if "i < 19" for i
  proof -
    from that len have "map (\<lambda>r. hp ! r) ts ! i = hp ! (ts ! i)" by simp
    moreover from that have "map expected_transaction [0..<19] ! i = expected_transaction i" by simp
    ultimately show ?thesis using f(2) by simp
  qed
  have "hp ! 0 = take 17 hp ! 0" by simp
  with f(4) have s: "hp ! 0 = AVAILABLE_TRANSACTIONS ! 0" by simp
  from v n[of 0] n[of 17] n[of 18] s z f(1) f(3) h show ?thesis
    unfolding p by simp
qed

end
